theory Spec2Isabelle
  imports Complex_Main "HOL-Library.Sublist"
begin

section \<open>JavaScript values\<close>

text \<open>
  A JavaScript string is a sequence of UTF-16 code units; a code unit is modelled by its
  number. \<open>lit\<close> turns an Isabelle literal (Latin-1 characters) into such a string.
  Numbers are modelled by the real number they denote; how the runtime prints a number
  inside a template literal is a parameter \<open>str\<close> of the functions that print one.
  An optional field (\<open>field?: T\<close>) is an \<open>option\<close>.
\<close>

type_synonym jsstring = "nat list"

definition lit :: "string \<Rightarrow> jsstring" where
  "lit s = map of_char s"

text \<open>Truthiness of an optional string: it is present and not empty.\<close>

definition truthy_str :: "jsstring option \<Rightarrow> bool" where
  "truthy_str v = (case v of None \<Rightarrow> False | Some s \<Rightarrow> s \<noteq> [])"

text \<open>\<open>v || d\<close> on an optional number and on an optional string.\<close>

definition num_or :: "real option \<Rightarrow> real \<Rightarrow> real" where
  "num_or v d = (case v of None \<Rightarrow> d | Some x \<Rightarrow> if x \<noteq> 0 then x else d)"

definition str_or :: "jsstring option \<Rightarrow> jsstring \<Rightarrow> jsstring" where
  "str_or v d = (case v of None \<Rightarrow> d | Some s \<Rightarrow> if s \<noteq> [] then s else d)"

text \<open>
  Decimal printing of a natural number, and with it the runtime's number printing on
  non-negative integers; it instantiates \<open>str\<close> in the examples.
\<close>

fun show_nat :: "nat \<Rightarrow> jsstring" where
  "show_nat n = (if n < 10 then [48 + n] else show_nat (n div 10) @ [48 + n mod 10])"

definition js_decimal :: "real \<Rightarrow> jsstring" where
  "js_decimal x = show_nat (nat \<lfloor>x\<rfloor>)"

text \<open>
  \<open>String.prototype.trim\<close>: strips the code units of WhiteSpace and LineTerminator from
  both ends.
\<close>

definition isWhiteSpace :: "nat \<Rightarrow> bool" where
  "isWhiteSpace u \<longleftrightarrow>
     u = 9 \<or> u = 10 \<or> u = 11 \<or> u = 12 \<or> u = 13 \<or> u = 32 \<or> u = 160 \<or> u = 5760 \<or>
     (8192 \<le> u \<and> u \<le> 8202) \<or> u = 8232 \<or> u = 8233 \<or> u = 8239 \<or> u = 8287 \<or>
     u = 12288 \<or> u = 65279"

definition trim :: "jsstring \<Rightarrow> jsstring" where
  "trim s = rev (dropWhile isWhiteSpace (rev (dropWhile isWhiteSpace s)))"

section \<open>The export file name (pdf-utils.ts, line 148)\<close>

text \<open>
  \<open>/[^a-z0-9]/gi\<close> has no \<open>u\<close> flag, so it is matched code unit by code unit. Under the
  \<open>i\<close> flag a unit belongs to the class \<open>[a-z0-9]\<close> when its canonical (upper-cased) form
  is that of a member; a unit from 128 up never canonicalizes to one below 128, so the
  members are the ASCII letters of both cases and the digits.
\<close>

definition in_az09_i :: "nat \<Rightarrow> bool" where
  "in_az09_i u \<longleftrightarrow> (48 \<le> u \<and> u \<le> 57) \<or> (65 \<le> u \<and> u \<le> 90) \<or> (97 \<le> u \<and> u \<le> 122)"

text \<open>\<open>name.replace(/[^a-z0-9]/gi, '_')\<close>\<close>

definition replace_non_az09 :: "jsstring \<Rightarrow> jsstring" where
  "replace_non_az09 s = map (\<lambda>u. if in_az09_i u then u else 95) s"

text \<open>
  \<open>String.prototype.toLowerCase\<close> on strings of ASCII code units. The routine applies
  it to the result of the replacement only, where every unit is an ASCII letter, a digit or
  the underscore; a unit from 128 up is left as it is here.
\<close>

definition toLowerCase_unit :: "nat \<Rightarrow> nat" where
  "toLowerCase_unit u = (if 65 \<le> u \<and> u \<le> 90 then u + 32 else u)"

definition toLowerCase :: "jsstring \<Rightarrow> jsstring" where
  "toLowerCase s = map toLowerCase_unit s"

definition fileName :: "jsstring \<Rightarrow> jsstring" where
  "fileName recipe_name = toLowerCase (replace_non_az09 recipe_name) @ lit ''.pdf''"

text \<open>
  The file name in the words of the specification: the name with every character outside
  \<open>[A-Za-z0-9]\<close> replaced by an underscore and the others lower-cased, then the extension.
\<close>

definition sanitized_spec :: "jsstring \<Rightarrow> jsstring" where
  "sanitized_spec recipe_name =
     map (\<lambda>u. if (48 \<le> u \<and> u \<le> 57) \<or> (97 \<le> u \<and> u \<le> 122) then u
              else if 65 \<le> u \<and> u \<le> 90 then u + 32
              else 95) recipe_name"

section \<open>Difficulty labels\<close>

definition Facil :: jsstring where
  "Facil = lit ''F'' @ [225] @ lit ''cil''"

definition Medio :: jsstring where
  "Medio = lit ''Medio''"

definition Dificil :: jsstring where
  "Dificil = lit ''Dif'' @ [237] @ lit ''cil''"

definition No_especificado :: jsstring where
  "No_especificado = lit ''No especificado''"

text \<open>
  \<open>getDifficultyText\<close> of pdf-utils.ts (lines 64-71); the argument is a string or
  \<open>undefined\<close>, and \<open>switch\<close> compares with strict equality.
\<close>

definition getDifficultyText :: "jsstring option \<Rightarrow> jsstring" where
  "getDifficultyText difficulty =
     (if difficulty = Some (lit ''easy'') then Facil
      else if difficulty = Some (lit ''medium'') then Medio
      else if difficulty = Some (lit ''hard'') then Dificil
      else No_especificado)"

text \<open>\<open>getDifficultyText\<close> of the list view (part_002, lines 144-151).\<close>

definition getDifficultyText_list :: "jsstring option \<Rightarrow> jsstring" where
  "getDifficultyText_list difficulty =
     (if difficulty = Some (lit ''easy'') then Facil
      else if difficulty = Some (lit ''medium'') then Medio
      else if difficulty = Some (lit ''hard'') then Dificil
      else No_especificado)"

text \<open>
  \<open>getDifficultyText\<close> of the detail view (part_003, lines 151-158). Its parameter is
  declared \<open>string\<close>; the annotation is erased at run time, so the function is modelled on
  the same values as the other two.
\<close>

definition getDifficultyText_detail :: "jsstring option \<Rightarrow> jsstring" where
  "getDifficultyText_detail difficulty =
     (if difficulty = Some (lit ''easy'') then Facil
      else if difficulty = Some (lit ''medium'') then Medio
      else if difficulty = Some (lit ''hard'') then Dificil
      else No_especificado)"

section \<open>Records of the data model\<close>

text \<open>Of a unit the export uses the field \<open>name\<close>, written \<open>unit_name\<close>.\<close>

record Unit =
  unit_name :: jsstring

text \<open>The field \<open>notes\<close> is written \<open>notes'\<close>.\<close>

record Ingredient =
  ingredient :: jsstring
  quantity :: "real option"
  unit_id :: "jsstring option"
  notes' :: "jsstring option"

text \<open>\<open>Ingredient & { unit?: Unit }\<close>\<close>

record IngredientWithUnit = Ingredient +
  unit :: "Unit option"

record Instruction =
  step_number :: real
  instruction :: jsstring

record RecipeFields =
  name :: jsstring
  description :: "jsstring option"
  category :: "jsstring option"
  preparation_time :: "real option"
  cooking_time :: "real option"
  difficulty :: "jsstring option"
  servings :: "real option"

text \<open>\<open>RecipeWithDetails\<close>, the argument of the export routine.\<close>

record RecipeWithDetails = RecipeFields +
  ingredients :: "IngredientWithUnit list"
  instructions :: "Instruction list"

text \<open>\<open>RecipeFormData\<close>, the argument of the form's submit handler.\<close>

record RecipeFormData = RecipeFields +
  data_ingredients :: "Ingredient list"
  data_instructions :: "Instruction list"

section \<open>Text of the metadata table and of the two lists\<close>

text \<open>\<open>infoData\<close> (lines 74-80); a row is the pair of its label and its value.\<close>

definition infoData :: "(real \<Rightarrow> jsstring) \<Rightarrow> RecipeWithDetails \<Rightarrow> (jsstring \<times> jsstring) list" where
  "infoData str recipe =
     [(lit ''Tiempo de Preparaci'' @ [243] @ lit ''n:'',
         str (num_or (preparation_time recipe) 0) @ lit '' minutos''),
      (lit ''Tiempo de Cocci'' @ [243] @ lit ''n:'',
         str (num_or (cooking_time recipe) 0) @ lit '' minutos''),
      (lit ''Porciones:'', str (num_or (servings recipe) 1)),
      (lit ''Dificultad:'', getDifficultyText (difficulty recipe))]
     @ (case category recipe of
          None \<Rightarrow> []
        | Some c \<Rightarrow> if c \<noteq> [] then [(lit ''Categor'' @ [237] @ lit ''a:'', c)] else [])"

text \<open>\<open>ingredientText\<close> (line 121); 8226 is the bullet.\<close>

definition ingredientText :: "(real \<Rightarrow> jsstring) \<Rightarrow> IngredientWithUnit \<Rightarrow> jsstring" where
  "ingredientText str i =
     [8226] @ lit '' ''
     @ (case quantity i of
          None \<Rightarrow> []
        | Some q \<Rightarrow> if q \<noteq> 0 then str q @ lit '' '' else [])
     @ str_or (case unit i of None \<Rightarrow> None | Some u \<Rightarrow> Some (unit_name u)) []
     @ lit '' '' @ ingredient i
     @ (case notes' i of
          None \<Rightarrow> []
        | Some n \<Rightarrow> if n \<noteq> [] then lit '' ('' @ n @ lit '')'' else [])"

text \<open>\<open>stepText\<close> (line 134)\<close>

definition stepText :: "(real \<Rightarrow> jsstring) \<Rightarrow> Instruction \<Rightarrow> jsstring" where
  "stepText str i = str (step_number i) @ lit ''. '' @ instruction i"

section \<open>Programs with state and exceptions\<close>

text \<open>
  A statement sequence of the source is a function from the state to an outcome and the
  state it leaves: \<open>Inl e\<close> when \<open>e\<close> was thrown (the rest of the sequence is skipped, and
  the state is the one at the throw), \<open>Inr v\<close> when it ran to its end with value \<open>v\<close>.
\<close>

type_synonym ('s, 'e, 'a) prog = "'s \<Rightarrow> ('e + 'a) \<times> 's"

definition returnP :: "'a \<Rightarrow> ('s, 'e, 'a) prog" where
  "returnP v = (\<lambda>s. (Inr v, s))"

definition throwP :: "'e \<Rightarrow> ('s, 'e, 'a) prog" where
  "throwP e = (\<lambda>s. (Inl e, s))"

definition bindP :: "('s, 'e, 'a) prog \<Rightarrow> ('a \<Rightarrow> ('s, 'e, 'b) prog) \<Rightarrow> ('s, 'e, 'b) prog" where
  "bindP m f = (\<lambda>s. case m s of (Inl e, s') \<Rightarrow> (Inl e, s') | (Inr v, s') \<Rightarrow> f v s')"

fun seqP :: "('s, 'e, unit) prog list \<Rightarrow> ('s, 'e, unit) prog" where
  "seqP [] = returnP ()"
| "seqP (m # ms) = bindP m (\<lambda>_. seqP ms)"

definition getsP :: "('s \<Rightarrow> 'a) \<Rightarrow> ('s, 'e, 'a) prog" where
  "getsP f = (\<lambda>s. (Inr (f s), s))"

definition modifyP :: "('s \<Rightarrow> 's) \<Rightarrow> ('s, 'e, unit) prog" where
  "modifyP f = (\<lambda>s. (Inr (), f s))"

definition whenP :: "bool \<Rightarrow> ('s, 'e, unit) prog \<Rightarrow> ('s, 'e, unit) prog" where
  "whenP b m = (if b then m else returnP ())"

text \<open>
  \<open>xs.forEach((x, index) => ...)\<close>: the callback runs on the elements in order, with
  their indices; what it throws leaves the loop.
\<close>

fun forEachFrom :: "('a \<Rightarrow> nat \<Rightarrow> ('s, 'e, unit) prog) \<Rightarrow> 'a list \<Rightarrow> nat \<Rightarrow> ('s, 'e, unit) prog" where
  "forEachFrom f [] i = returnP ()"
| "forEachFrom f (x # xs) i = bindP (f x i) (\<lambda>_. forEachFrom f xs (Suc i))"

definition forEach :: "('a \<Rightarrow> nat \<Rightarrow> ('s, 'e, unit) prog) \<Rightarrow> 'a list \<Rightarrow> ('s, 'e, unit) prog" where
  "forEach f xs = forEachFrom f xs 0"

text \<open>\<open>try { m } catch (error) { h error }\<close> and \<open>try { m } finally { f }\<close>\<close>

definition tryCatch :: "('s, 'e, 'a) prog \<Rightarrow> ('e \<Rightarrow> ('s, 'e, 'a) prog) \<Rightarrow> ('s, 'e, 'a) prog" where
  "tryCatch m h = (\<lambda>s. case m s of (Inl e, s') \<Rightarrow> h e s' | (Inr v, s') \<Rightarrow> (Inr v, s'))"

definition tryFinally :: "('s, 'e, 'a) prog \<Rightarrow> ('s, 'e, unit) prog \<Rightarrow> ('s, 'e, 'a) prog" where
  "tryFinally m f =
     (\<lambda>s. case m s of (r, s') \<Rightarrow>
            (case f s' of (Inl e, s'') \<Rightarrow> (Inl e, s'') | (Inr _, s'') \<Rightarrow> (r, s'')))"

section \<open>The document library\<close>

text \<open>
  The export routine builds its document through the jsPDF library, which is not part of
  the repository. The model keeps of a document what the routine's calls put into it: the
  finished pages, the current page (where \<open>text\<close> and \<open>line\<close> draw; \<open>addPage\<close> finishes it
  and opens an empty one), and the current font size, font style and colours.
\<close>

datatype colour = Hex jsstring | RGB nat nat nat

datatype item =
  Text (text_lines: "jsstring list") (text_x: real) (text_y: real)
| Line real real real real

record pdf =
  prev_pages :: "item list list"
  page :: "item list"
  fontSize :: real
  fontStyle :: jsstring
  textColor :: colour
  drawColor :: colour

text \<open>The calls the routine makes, with their arguments.\<close>

datatype call =
  New
| GetWidth
| GetHeight
| SetFontSize real
| SetFont jsstring jsstring
| SetTextColor colour
| is_SplitTextToSize: SplitTextToSize jsstring real
| AddPage
| is_TextCall: TextCall "jsstring list" real real
| SetDrawColor colour
| LineCall real real real real
| is_Save: Save jsstring

text \<open>What a \<open>throw\<close> carries: what the library threw in a call, or \<open>new Error(message)\<close>.\<close>

datatype error = Thrown call | Error jsstring

text \<open>
  What the routine takes from its surroundings: the page size the library reports, the
  library's line breaking (which depends on the document's font), which calls throw (a call
  may throw depending on its arguments and on the document), the runtime's printing of
  numbers, and today's date as \<open>toLocaleDateString('es-ES')\<close> prints it.
\<close>

record env =
  getWidth :: real
  getHeight :: real
  splitTextToSize :: "pdf \<Rightarrow> jsstring \<Rightarrow> real \<Rightarrow> jsstring list"
  throws :: "pdf \<Rightarrow> call \<Rightarrow> bool"
  numberToString :: "real \<Rightarrow> jsstring"
  toLocaleDateString :: jsstring

text \<open>
  The state of one export: the document, the cursor \<open>currentY\<close>, the library calls made
  so far (a call is recorded when it is made, whether it then throws or not), the files
  handed to the browser for download, and what was written to the console.
\<close>

record export_state =
  doc :: pdf
  currentY :: real
  issued :: "call list"
  saved :: "(jsstring \<times> pdf) list"
  console :: "error list"

text \<open>\<open>new jsPDF()\<close>: one empty page, the library's default font size and style.\<close>

definition new_pdf :: pdf where
  "new_pdf = \<lparr>prev_pages = [], page = [], fontSize = 16, fontStyle = lit ''normal'',
              textColor = RGB 0 0 0, drawColor = RGB 0 0 0\<rparr>"

definition lib_call :: "env \<Rightarrow> call \<Rightarrow> (pdf \<Rightarrow> pdf) \<Rightarrow> (export_state, error, unit) prog" where
  "lib_call E c f =
     (\<lambda>s. if throws E (doc s) c then (Inl (Thrown c), s\<lparr>issued := issued s @ [c]\<rparr>)
          else (Inr (), s\<lparr>doc := f (doc s), issued := issued s @ [c]\<rparr>))"

definition new_jsPDF :: "env \<Rightarrow> (export_state, error, unit) prog" where
  "new_jsPDF E =
     (\<lambda>s. if throws E new_pdf New then (Inl (Thrown New), s\<lparr>issued := issued s @ [New]\<rparr>)
          else (Inr (), s\<lparr>doc := new_pdf, issued := issued s @ [New]\<rparr>))"

definition pdf_getWidth :: "env \<Rightarrow> (export_state, error, real) prog" where
  "pdf_getWidth E = bindP (lib_call E GetWidth (\<lambda>d. d)) (\<lambda>_. returnP (getWidth E))"

definition pdf_getHeight :: "env \<Rightarrow> (export_state, error, real) prog" where
  "pdf_getHeight E = bindP (lib_call E GetHeight (\<lambda>d. d)) (\<lambda>_. returnP (getHeight E))"

definition pdf_setFontSize :: "env \<Rightarrow> real \<Rightarrow> (export_state, error, unit) prog" where
  "pdf_setFontSize E n = lib_call E (SetFontSize n) (\<lambda>d. d\<lparr>fontSize := n\<rparr>)"

definition pdf_setFont :: "env \<Rightarrow> jsstring \<Rightarrow> jsstring \<Rightarrow> (export_state, error, unit) prog" where
  "pdf_setFont E family style = lib_call E (SetFont family style) (\<lambda>d. d\<lparr>fontStyle := style\<rparr>)"

definition pdf_setTextColor :: "env \<Rightarrow> colour \<Rightarrow> (export_state, error, unit) prog" where
  "pdf_setTextColor E c = lib_call E (SetTextColor c) (\<lambda>d. d\<lparr>textColor := c\<rparr>)"

definition pdf_setDrawColor :: "env \<Rightarrow> colour \<Rightarrow> (export_state, error, unit) prog" where
  "pdf_setDrawColor E c = lib_call E (SetDrawColor c) (\<lambda>d. d\<lparr>drawColor := c\<rparr>)"

definition pdf_splitTextToSize :: "env \<Rightarrow> jsstring \<Rightarrow> real \<Rightarrow> (export_state, error, jsstring list) prog" where
  "pdf_splitTextToSize E t w =
     bindP (lib_call E (SplitTextToSize t w) (\<lambda>d. d))
       (\<lambda>_. getsP (\<lambda>s. splitTextToSize E (doc s) t w))"

definition pdf_addPage :: "env \<Rightarrow> (export_state, error, unit) prog" where
  "pdf_addPage E = lib_call E AddPage (\<lambda>d. d\<lparr>prev_pages := prev_pages d @ [page d], page := []\<rparr>)"

definition pdf_text :: "env \<Rightarrow> jsstring list \<Rightarrow> real \<Rightarrow> real \<Rightarrow> (export_state, error, unit) prog" where
  "pdf_text E ls x y = lib_call E (TextCall ls x y) (\<lambda>d. d\<lparr>page := page d @ [Text ls x y]\<rparr>)"

definition pdf_line :: "env \<Rightarrow> real \<Rightarrow> real \<Rightarrow> real \<Rightarrow> real \<Rightarrow> (export_state, error, unit) prog" where
  "pdf_line E x1 y1 x2 y2 =
     lib_call E (LineCall x1 y1 x2 y2) (\<lambda>d. d\<lparr>page := page d @ [Line x1 y1 x2 y2]\<rparr>)"

definition pdf_save :: "env \<Rightarrow> jsstring \<Rightarrow> (export_state, error, unit) prog" where
  "pdf_save E f =
     (\<lambda>s. if throws E (doc s) (Save f)
          then (Inl (Thrown (Save f)), s\<lparr>issued := issued s @ [Save f]\<rparr>)
          else (Inr (), s\<lparr>issued := issued s @ [Save f], saved := saved s @ [(f, doc s)]\<rparr>))"

definition console_error :: "error \<Rightarrow> (export_state, error, unit) prog" where
  "console_error e = modifyP (\<lambda>s. s\<lparr>console := console s @ [e]\<rparr>)"

section \<open>The export routine (pdf-utils.ts)\<close>

text \<open>The constants of lines 11-14, which the inner functions close over.\<close>

record geometry =
  pageWidth :: real
  pageHeight :: real
  margin :: real
  contentWidth :: real

definition setCurrentY :: "real \<Rightarrow> (export_state, error, unit) prog" where
  "setCurrentY v = modifyP (\<lambda>s. s\<lparr>currentY := v\<rparr>)"

text \<open>\<open>currentY += n\<close>\<close>

definition advance :: "real \<Rightarrow> (export_state, error, unit) prog" where
  "advance n = modifyP (\<lambda>s. s\<lparr>currentY := currentY s + n\<rparr>)"

text \<open>
  \<open>addText\<close> (lines 18-39). The colour is passed to the library as the string it is given
  in; the three numbers the source hands over are \<open>parseInt\<close> of its slices.
\<close>

definition addText ::
  "env \<Rightarrow> geometry \<Rightarrow> jsstring \<Rightarrow> real \<Rightarrow> bool \<Rightarrow> jsstring \<Rightarrow> (export_state, error, unit) prog" where
  "addText E G txt fontSize' isBold color =
     seqP [
       pdf_setFontSize E fontSize',
       pdf_setFont E (lit ''helvetica'') (if isBold then lit ''bold'' else lit ''normal''),
       pdf_setTextColor E (Hex color),
       bindP (pdf_splitTextToSize E txt (contentWidth G)) (\<lambda>lines.
         let lineHeight = fontSize' * 0.4 in
         seqP [
           bindP (getsP currentY) (\<lambda>y.
             whenP (y + real (length lines) * lineHeight > pageHeight G - margin G)
               (seqP [pdf_addPage E, setCurrentY (margin G)])),
           bindP (getsP currentY) (\<lambda>y. pdf_text E lines (margin G) y),
           advance (real (length lines) * lineHeight + 5)])]"

text \<open>\<open>addSeparator\<close> (lines 42-50)\<close>

definition addSeparator :: "env \<Rightarrow> geometry \<Rightarrow> (export_state, error, unit) prog" where
  "addSeparator E G =
     seqP [
       bindP (getsP currentY) (\<lambda>y.
         whenP (y + 10 > pageHeight G - margin G)
           (seqP [pdf_addPage E, setCurrentY (margin G)])),
       pdf_setDrawColor E (RGB 249 115 22),
       bindP (getsP currentY) (\<lambda>y. pdf_line E (margin G) y (pageWidth G - margin G) y),
       advance 15]"

text \<open>
  The callback of \<open>infoData.forEach\<close> (lines 92-109). Its \<open>return\<close> after the page break
  ends the callback for this row; the loop goes on with the next row.
\<close>

definition drawInfoRow ::
  "env \<Rightarrow> geometry \<Rightarrow> real \<Rightarrow> real \<Rightarrow> real \<Rightarrow> jsstring \<times> jsstring \<Rightarrow> nat
     \<Rightarrow> (export_state, error, unit) prog" where
  "drawInfoRow E G tableStartY rowHeight col1Width row index =
     (let y = tableStartY + real index * rowHeight in
      if y + rowHeight > pageHeight G - margin G
      then seqP [pdf_addPage E, setCurrentY (margin G)]
      else seqP [
        pdf_setFont E (lit ''helvetica'') (lit ''bold''),
        pdf_text E [fst row] (margin G) y,
        pdf_setFont E (lit ''helvetica'') (lit ''normal''),
        pdf_text E [snd row] (margin G + col1Width) y])"

text \<open>The metadata table (lines 74-111).\<close>

definition infoTable :: "env \<Rightarrow> geometry \<Rightarrow> RecipeWithDetails \<Rightarrow> (export_state, error, unit) prog" where
  "infoTable E G recipe =
     (let rows = infoData (numberToString E) recipe in
      bindP (getsP currentY) (\<lambda>tableStartY.
        let rowHeight = 8; col1Width = contentWidth G * 0.4 in
        seqP [
          pdf_setFontSize E 10,
          pdf_setFont E (lit ''helvetica'') (lit ''normal''),
          pdf_setTextColor E (RGB 0 0 0),
          forEach (drawInfoRow E G tableStartY rowHeight col1Width) rows,
          setCurrentY (tableStartY + real (length rows) * rowHeight + 15)]))"

text \<open>The two list sections (lines 116-123 and 128-137).\<close>

definition ingredientsSection :: "env \<Rightarrow> geometry \<Rightarrow> RecipeWithDetails \<Rightarrow> (export_state, error, unit) prog" where
  "ingredientsSection E G recipe =
     seqP [
       addText E G (lit ''Ingredientes'') 18 True (lit ''#f97316''),
       advance 5,
       forEach (\<lambda>i index. addText E G (ingredientText (numberToString E) i) 11 False (lit ''#000000''))
         (ingredients recipe)]"

definition instructionsSection :: "env \<Rightarrow> geometry \<Rightarrow> RecipeWithDetails \<Rightarrow> (export_state, error, unit) prog" where
  "instructionsSection E G recipe =
     seqP [
       addText E G (lit ''Instrucciones'') 18 True (lit ''#f97316''),
       advance 5,
       forEach (\<lambda>i index.
           seqP [addText E G (stepText (numberToString E) i) 11 False (lit ''#000000''), advance 3])
         (instructions recipe)]"

text \<open>Lines 53-137: everything the routine lays out with the cursor.\<close>

definition renderContent :: "env \<Rightarrow> geometry \<Rightarrow> RecipeWithDetails \<Rightarrow> (export_state, error, unit) prog" where
  "renderContent E G recipe =
     seqP [
       addText E G (name recipe) 24 True (lit ''#f97316''),
       advance 5,
       (case description recipe of
          None \<Rightarrow> returnP ()
        | Some d \<Rightarrow> whenP (d \<noteq> []) (seqP [addText E G d 12 False (lit ''#666666''), advance 10])),
       infoTable E G recipe,
       addSeparator E G,
       ingredientsSection E G recipe,
       advance 10,
       addSeparator E G,
       instructionsSection E G recipe]"

text \<open>The footer (lines 139-145).\<close>

definition footerLabel :: jsstring where
  "footerLabel = lit ''Generado con Recipe Manager App''"

definition renderFooter :: "env \<Rightarrow> geometry \<Rightarrow> (export_state, error, unit) prog" where
  "renderFooter E G =
     (let footerY = pageHeight G - 15 in
      seqP [
        pdf_setFontSize E 8,
        pdf_setFont E (lit ''helvetica'') (lit ''normal''),
        pdf_setTextColor E (RGB 128 128 128),
        pdf_text E [footerLabel] (margin G) footerY,
        pdf_text E [toLocaleDateString E] (pageWidth G - margin G - 30) footerY])"

text \<open>The body of the \<open>try\<close> block (lines 53-149).\<close>

definition tryBlock :: "env \<Rightarrow> geometry \<Rightarrow> RecipeWithDetails \<Rightarrow> (export_state, error, unit) prog" where
  "tryBlock E G recipe =
     seqP [renderContent E G recipe, renderFooter E G, pdf_save E (fileName (name recipe))]"

definition generation_failed :: error where
  "generation_failed = Error (lit ''No se pudo generar el PDF'')"

text \<open>\<open>generateRecipePDF\<close> (lines 9-155)\<close>

definition generateRecipePDF :: "env \<Rightarrow> RecipeWithDetails \<Rightarrow> (export_state, error, unit) prog" where
  "generateRecipePDF E recipe =
     bindP (new_jsPDF E) (\<lambda>_.
     bindP (pdf_getWidth E) (\<lambda>w.
     bindP (pdf_getHeight E) (\<lambda>h.
       let G = \<lparr>pageWidth = w, pageHeight = h, margin = 20, contentWidth = w - 20 * 2\<rparr> in
       seqP [
         setCurrentY (margin G),
         tryCatch (tryBlock E G recipe)
           (\<lambda>e. seqP [console_error e, throwP generation_failed])])))"

text \<open>The state in which an export starts: nothing saved, nothing on the console.\<close>

definition start :: export_state where
  "start = \<lparr>doc = new_pdf, currentY = 0, issued = [], saved = [], console = []\<rparr>"

section \<open>The submit handler of the recipe form (RecipeForm.tsx)\<close>

text \<open>
  The store is the hosted backend behind \<open>blink.db\<close>. The model keeps the calls made to
  it, in order; a call is recorded when it is issued, whether the store then rejects it
  or not.
\<close>

datatype db_call =
  Recipes_update jsstring RecipeFields jsstring
| Ingredients_delete jsstring
| Instructions_delete jsstring
| Recipes_create RecipeFields bool
| is_Ingredients_create: Ingredients_create jsstring Ingredient
| is_Instructions_create: Instructions_create jsstring Instruction

datatype form_error = Rejected db_call | TypeError

datatype toast = Toast jsstring jsstring bool

text \<open>
  What the handler takes from its surroundings: which calls the store rejects (given the
  calls before), the identifier of the record \<open>recipes.create\<close> returns, the time stamp
  \<open>new Date().toISOString()\<close>, and whether the runtime throws at the assignment of
  line 151 to \<open>id\<close>, which line 23 declares with \<open>const\<close>.
\<close>

record store_env =
  rejects :: "db_call list \<Rightarrow> db_call \<Rightarrow> bool"
  created_id :: jsstring
  toISOString :: jsstring
  const_assignment_throws :: bool

record form_state =
  calls :: "db_call list"
  loading :: bool
  toasts :: "toast list"
  navigated :: "jsstring list"
  form_console :: "form_error list"

definition db :: "store_env \<Rightarrow> db_call \<Rightarrow> (form_state, form_error, unit) prog" where
  "db S c =
     (\<lambda>s. if rejects S (calls s) c then (Inl (Rejected c), s\<lparr>calls := calls s @ [c]\<rparr>)
          else (Inr (), s\<lparr>calls := calls s @ [c]\<rparr>))"

definition setLoading :: "bool \<Rightarrow> (form_state, form_error, unit) prog" where
  "setLoading b = modifyP (\<lambda>s. s\<lparr>loading := b\<rparr>)"

definition show_toast :: "toast \<Rightarrow> (form_state, form_error, unit) prog" where
  "show_toast t = modifyP (\<lambda>s. s\<lparr>toasts := toasts s @ [t]\<rparr>)"

definition navigate :: "jsstring \<Rightarrow> (form_state, form_error, unit) prog" where
  "navigate p = modifyP (\<lambda>s. s\<lparr>navigated := navigated s @ [p]\<rparr>)"

text \<open>The two loops of lines 154-176.\<close>

definition createIngredients :: "store_env \<Rightarrow> jsstring \<Rightarrow> Ingredient list \<Rightarrow> (form_state, form_error, unit) prog" where
  "createIngredients S id' rows =
     forEach (\<lambda>i index.
         whenP (trim (ingredient i) \<noteq> [])
           (db S (Ingredients_create id'
              (i\<lparr>unit_id := (case unit_id i of None \<Rightarrow> None
                               | Some u \<Rightarrow> if u \<noteq> [] then Some u else None)\<rparr>))))
       rows"

definition createInstructions :: "store_env \<Rightarrow> jsstring \<Rightarrow> Instruction list \<Rightarrow> (form_state, form_error, unit) prog" where
  "createInstructions S id' rows =
     forEach (\<lambda>i index. whenP (trim (instruction i) \<noteq> []) (db S (Instructions_create id' i))) rows"

text \<open>
  Lines 123-152, the two branches of \<open>if (isEditing && id)\<close>; the value of each is the
  \<open>id\<close> the loops below use.
\<close>

definition updateRecipe :: "store_env \<Rightarrow> jsstring \<Rightarrow> RecipeFormData \<Rightarrow> (form_state, form_error, jsstring) prog" where
  "updateRecipe S i data =
     bindP (seqP [
         db S (Recipes_update i (RecipeFields.truncate data) (toISOString S)),
         db S (Ingredients_delete i),
         db S (Instructions_delete i)])
       (\<lambda>_. returnP i)"

definition createRecipe :: "store_env \<Rightarrow> RecipeFormData \<Rightarrow> (form_state, form_error, jsstring) prog" where
  "createRecipe S data =
     bindP (db S (Recipes_create (RecipeFields.truncate data) True))
       (\<lambda>_. if const_assignment_throws S then throwP TypeError else returnP (created_id S))"

definition saveRecipe :: "store_env \<Rightarrow> bool \<Rightarrow> jsstring option \<Rightarrow> RecipeFormData \<Rightarrow> (form_state, form_error, jsstring) prog" where
  "saveRecipe S isEditing id' data =
     (case id' of
        None \<Rightarrow> createRecipe S data
      | Some i \<Rightarrow> if isEditing \<and> i \<noteq> [] then updateRecipe S i data else createRecipe S data)"

text \<open>\<open>onSubmit\<close> (lines 119-194); \<open>id'\<close> is the route parameter \<open>id\<close>.\<close>

definition onSubmit :: "store_env \<Rightarrow> jsstring option \<Rightarrow> RecipeFormData \<Rightarrow> (form_state, form_error, unit) prog" where
  "onSubmit S id' data =
     (let isEditing = truthy_str id' in
      tryFinally
        (tryCatch
           (seqP [
              setLoading True,
              bindP (saveRecipe S isEditing id' data) (\<lambda>rid.
                seqP [
                  createIngredients S rid (data_ingredients data),
                  createInstructions S rid (data_instructions data)]),
              show_toast (Toast ([201] @ lit ''xito'')
                (lit ''Receta '' @ (if isEditing then lit ''actualizada'' else lit ''creada'')
                   @ lit '' correctamente'') False),
              navigate (lit ''/'')])
           (\<lambda>e. seqP [
              modifyP (\<lambda>s. s\<lparr>form_console := form_console s @ [e]\<rparr>),
              show_toast (Toast (lit ''Error'')
                (lit ''No se pudo '' @ (if isEditing then lit ''actualizar'' else lit ''crear'')
                   @ lit '' la receta'') True)]))
        (setLoading False))"

definition form_start :: form_state where
  "form_start = \<lparr>calls = [], loading = False, toasts = [], navigated = [], form_console = []\<rparr>"

section \<open>Notions used to state the properties\<close>

subsection \<open>Text blocks\<close>

text \<open>
  The document as \<open>addText\<close> has it when it asks the library to break the text: the font
  size, style and colour are set. \<open>blockLines\<close> are the lines the library returns,
  \<open>blockHeight\<close> is the height the source computes for them, \<open>breaksPage\<close> is the test of
  line 32, and \<open>blockY\<close> the position the block is then drawn at.
\<close>

definition styled :: "pdf \<Rightarrow> real \<Rightarrow> bool \<Rightarrow> jsstring \<Rightarrow> pdf" where
  "styled d fs b c =
     d\<lparr>fontSize := fs, fontStyle := (if b then lit ''bold'' else lit ''normal''),
       textColor := Hex c\<rparr>"

definition blockLines :: "env \<Rightarrow> geometry \<Rightarrow> pdf \<Rightarrow> jsstring \<Rightarrow> real \<Rightarrow> bool \<Rightarrow> jsstring \<Rightarrow> jsstring list" where
  "blockLines E G d txt fs b c = splitTextToSize E (styled d fs b c) txt (contentWidth G)"

definition blockHeight :: "env \<Rightarrow> geometry \<Rightarrow> pdf \<Rightarrow> jsstring \<Rightarrow> real \<Rightarrow> bool \<Rightarrow> jsstring \<Rightarrow> real" where
  "blockHeight E G d txt fs b c = real (length (blockLines E G d txt fs b c)) * (fs * 0.4)"

definition breaksPage :: "env \<Rightarrow> geometry \<Rightarrow> jsstring \<Rightarrow> real \<Rightarrow> bool \<Rightarrow> jsstring \<Rightarrow> export_state \<Rightarrow> bool" where
  "breaksPage E G txt fs b c s \<longleftrightarrow>
     currentY s + blockHeight E G (doc s) txt fs b c > pageHeight G - margin G"

definition blockY :: "env \<Rightarrow> geometry \<Rightarrow> jsstring \<Rightarrow> real \<Rightarrow> bool \<Rightarrow> jsstring \<Rightarrow> export_state \<Rightarrow> real" where
  "blockY E G txt fs b c s = (if breaksPage E G txt fs b c s then margin G else currentY s)"

subsection \<open>Lines of the ingredient list\<close>


subsection \<open>Rows of the metadata table\<close>

text \<open>
  The test of line 96 for the row of a given index, the two items lines 104 and 108 draw
  for a row, and the number of leading rows that pass the test.
\<close>

definition rowOverflows :: "geometry \<Rightarrow> real \<Rightarrow> real \<Rightarrow> nat \<Rightarrow> bool" where
  "rowOverflows G tableStartY rowHeight index \<longleftrightarrow>
     tableStartY + real index * rowHeight + rowHeight > pageHeight G - margin G"

definition rowItems :: "geometry \<Rightarrow> real \<Rightarrow> real \<Rightarrow> real \<Rightarrow> jsstring \<times> jsstring \<Rightarrow> nat \<Rightarrow> item list" where
  "rowItems G tableStartY rowHeight col1Width row index =
     [Text [fst row] (margin G) (tableStartY + real index * rowHeight),
      Text [snd row] (margin G + col1Width) (tableStartY + real index * rowHeight)]"

definition fittingRows :: "geometry \<Rightarrow> real \<Rightarrow> real \<Rightarrow> nat \<Rightarrow> nat \<Rightarrow> nat" where
  "fittingRows G tableStartY rowHeight i n =
     length (takeWhile (\<lambda>j. \<not> rowOverflows G tableStartY rowHeight j) [i..<i + n])"

subsection \<open>Runs of the export routine\<close>

text \<open>
  The constants of lines 11-14 for a given library, and the state in which the \<open>try\<close>
  block is entered and the one in which the footer is reached.
\<close>

definition geometry_of :: "env \<Rightarrow> geometry" where
  "geometry_of E =
     \<lparr>pageWidth = getWidth E, pageHeight = getHeight E, margin = 20,
      contentWidth = getWidth E - 20 * 2\<rparr>"

definition try_state :: "export_state \<Rightarrow> export_state" where
  "try_state s =
     s\<lparr>doc := new_pdf, issued := issued s @ [New, GetWidth, GetHeight], currentY := 20\<rparr>"

definition content_state :: "env \<Rightarrow> RecipeWithDetails \<Rightarrow> export_state \<Rightarrow> export_state" where
  "content_state E recipe s = snd (renderContent E (geometry_of E) recipe (try_state s))"

text \<open>A program that always runs to its end, and one that leaves an observation as it is.\<close>

definition returns :: "('s, 'e, 'a) prog \<Rightarrow> bool" where
  "returns m \<longleftrightarrow> (\<forall>s. \<not> isl (fst (m s)))"

definition keeps :: "('s \<Rightarrow> 'k) \<Rightarrow> ('s, 'e, 'a) prog \<Rightarrow> bool" where
  "keeps g m \<longleftrightarrow> (\<forall>s. g (snd (m s)) = g s)"


text \<open>A program that, when it throws, throws what the last library call made threw.\<close>

definition blames :: "(export_state, error, 'a) prog \<Rightarrow> bool" where
  "blames m \<longleftrightarrow> (\<forall>s e s'. m s = (Inl e, s') \<longrightarrow> e = Thrown (last (issued s')))"

text \<open>
  What an export leaves outside the document: the files saved, the console, and the
  \<open>save\<close> calls made.
\<close>

definition outputs :: "export_state \<Rightarrow> (jsstring \<times> pdf) list \<times> error list \<times> call list" where
  "outputs s = (saved s, console s, filter is_Save (issued s))"

subsection \<open>An example library and an example recipe\<close>

text \<open>A line breaker that breaks at line feeds only.\<close>

fun split_lines :: "jsstring \<Rightarrow> jsstring list" where
  "split_lines [] = [[]]"
| "split_lines (u # us) =
     (if u = 10 then [] # split_lines us
      else (case split_lines us of [] \<Rightarrow> [[u]] | l # ls \<Rightarrow> (u # l) # ls))"

text \<open>An A4 page in millimetres, a library that never throws.\<close>

definition example_env :: env where
  "example_env =
     \<lparr>getWidth = 210, getHeight = 297, splitTextToSize = (\<lambda>d t w. split_lines t),
      throws = (\<lambda>d c. False), numberToString = js_decimal,
      toLocaleDateString = lit ''2/11/2026''\<rparr>"

text \<open>The same library, except that every call of \<open>text\<close> throws.\<close>

definition failing_env :: env where
  "failing_env = example_env\<lparr>throws := (\<lambda>d c. is_TextCall c)\<rparr>"

text \<open>The same library, except that reading the page height throws.\<close>

definition broken_env :: env where
  "broken_env = example_env\<lparr>throws := (\<lambda>d c. c = GetHeight)\<rparr>"

text \<open>Two more, in which the constructor throws and in which reading the page width throws.\<close>

definition no_document_env :: env where
  "no_document_env = example_env\<lparr>throws := (\<lambda>d c. c = New)\<rparr>"

definition no_width_env :: env where
  "no_width_env = example_env\<lparr>throws := (\<lambda>d c. c = GetWidth)\<rparr>"

text \<open>A text of sixty short lines.\<close>

definition long_text :: jsstring where
  "long_text = concat (replicate 60 (lit ''paso'' @ [10]))"

definition manzana :: IngredientWithUnit where
  "manzana = \<lparr>ingredient = lit ''manzana'', quantity = Some 3, unit_id = None, notes' = None,
              unit = None\<rparr>"

definition tarta :: RecipeWithDetails where
  "tarta =
     \<lparr>name = lit ''Tarta de Manzana'', description = None, category = None,
      preparation_time = None, cooking_time = None, difficulty = None, servings = None,
      ingredients = [manzana],
      instructions = [\<lparr>step_number = 1, instruction = lit ''Hornear 40 minutos''\<rparr>]\<rparr>"

subsection \<open>Calls to the store\<close>

text \<open>
  Of a list of calls made one after the other until the store rejects one: the calls that
  are issued, and whether all are accepted.
\<close>

fun issued_calls :: "store_env \<Rightarrow> db_call list \<Rightarrow> db_call list \<Rightarrow> db_call list" where
  "issued_calls S before [] = []"
| "issued_calls S before (c # cs) =
     c # (if rejects S before c then [] else issued_calls S (before @ [c]) cs)"

fun all_accepted :: "store_env \<Rightarrow> db_call list \<Rightarrow> db_call list \<Rightarrow> bool" where
  "all_accepted S before [] = True"
| "all_accepted S before (c # cs) = (\<not> rejects S before c \<and> all_accepted S (before @ [c]) cs)"

text \<open>The create calls for the rows with text, in the order of the rows.\<close>

definition ingredientCalls :: "jsstring \<Rightarrow> Ingredient list \<Rightarrow> db_call list" where
  "ingredientCalls rid rows =
     map (\<lambda>i. Ingredients_create rid
               (i\<lparr>unit_id := (case unit_id i of None \<Rightarrow> None
                                | Some u \<Rightarrow> if u \<noteq> [] then Some u else None)\<rparr>))
       (filter (\<lambda>i. trim (ingredient i) \<noteq> []) rows)"

definition instructionCalls :: "jsstring \<Rightarrow> Instruction list \<Rightarrow> db_call list" where
  "instructionCalls rid rows =
     map (Instructions_create rid) (filter (\<lambda>i. trim (instruction i) \<noteq> []) rows)"

text \<open>The sequence the specification gives for saving an existing recipe.\<close>

definition editCalls :: "store_env \<Rightarrow> jsstring \<Rightarrow> RecipeFormData \<Rightarrow> db_call list" where
  "editCalls S i data =
     [Recipes_update i (RecipeFields.truncate data) (toISOString S),
      Ingredients_delete i,
      Instructions_delete i]
     @ ingredientCalls i (data_ingredients data)
     @ instructionCalls i (data_instructions data)"

definition newCalls :: "store_env \<Rightarrow> RecipeFormData \<Rightarrow> db_call list" where
  "newCalls S data =
     Recipes_create (RecipeFields.truncate data) True
     # (if const_assignment_throws S then []
        else ingredientCalls (created_id S) (data_ingredients data)
             @ instructionCalls (created_id S) (data_instructions data))"

definition plannedCalls :: "store_env \<Rightarrow> jsstring option \<Rightarrow> RecipeFormData \<Rightarrow> db_call list" where
  "plannedCalls S id' data =
     (case id' of
        None \<Rightarrow> newCalls S data
      | Some i \<Rightarrow> if i \<noteq> [] then editCalls S i data else newCalls S data)"

text \<open>The \<open>id\<close> the two loops use: the route parameter, or that of the record created.\<close>

definition target_id :: "store_env \<Rightarrow> jsstring option \<Rightarrow> jsstring" where
  "target_id S id' = (case id' of None \<Rightarrow> created_id S | Some i \<Rightarrow> if i \<noteq> [] then i else created_id S)"

text \<open>The two notifications of the handler.\<close>

definition success_toast :: "bool \<Rightarrow> toast" where
  "success_toast isEditing =
     Toast ([201] @ lit ''xito'')
       (lit ''Receta '' @ (if isEditing then lit ''actualizada'' else lit ''creada'')
          @ lit '' correctamente'') False"

definition error_toast :: "bool \<Rightarrow> toast" where
  "error_toast isEditing =
     Toast (lit ''Error'')
       (lit ''No se pudo '' @ (if isEditing then lit ''actualizar'' else lit ''crear'')
          @ lit '' la receta'') True"

text \<open>A store that accepts every call, and a form with blank rows.\<close>

definition example_store :: store_env where
  "example_store =
     \<lparr>rejects = (\<lambda>before c. False), created_id = lit ''r2'',
      toISOString = lit ''2026-11-02T00:00:00.000Z'', const_assignment_throws = True\<rparr>"

definition example_form :: RecipeFormData where
  "example_form =
     \<lparr>name = lit ''Tarta de Manzana'', description = Some [], category = Some [],
      preparation_time = Some 0, cooking_time = Some 0, difficulty = Some (lit ''easy''),
      servings = Some 1,
      data_ingredients =
        [\<lparr>ingredient = lit ''manzana'', quantity = Some 3, unit_id = Some [], notes' = Some []\<rparr>,
         \<lparr>ingredient = lit ''   '', quantity = Some 0, unit_id = Some [], notes' = Some []\<rparr>,
         \<lparr>ingredient = [], quantity = Some 0, unit_id = Some [], notes' = Some []\<rparr>],
      data_instructions =
        [\<lparr>step_number = 1, instruction = lit ''Hornear 40 minutos''\<rparr>,
         \<lparr>step_number = 2, instruction = lit '' ''\<rparr>]\<rparr>"

text \<open>The same store, except that it rejects the deletion of the instructions.\<close>

definition rejecting_store :: store_env where
  "rejecting_store = example_store\<lparr>rejects := (\<lambda>before c. c = Instructions_delete (lit ''r1''))\<rparr>"

text \<open>The calls a run of the handler adds to those made before it.\<close>

definition new_calls :: "form_state \<Rightarrow> form_state \<Rightarrow> db_call list" where
  "new_calls s s' = drop (length (calls s)) (calls s')"

section \<open>Properties\<close>

subsection \<open>Strings\<close>

lemmas file_defs = fileName_def toLowerCase_def replace_non_az09_def in_az09_i_def
  toLowerCase_unit_def

text \<open>After the replacement every code unit is an ASCII letter, a digit or the underscore,
  which is where \<open>toLowerCase\<close> is the runtime's.\<close>

lemma replace_non_az09_ascii: "u \<in> set (replace_non_az09 s) \<Longrightarrow> in_az09_i u \<or> u = 95"
  by (auto simp: replace_non_az09_def)

text \<open>
  C1. For every recipe name the export file name is the name with every character (code
  unit of the string) outside \<open>[A-Za-z0-9]\<close> replaced by an underscore and the others
  lower-cased, followed by \<open>.pdf\<close>; the name \<open>Paella Valenciana!\<close> gives
  \<open>paella_valenciana_.pdf\<close>.
\<close>

theorem C1_fileName:
  "fileName n = sanitized_spec n @ lit ''.pdf'' \<and>
   fileName (lit ''Paella Valenciana!'') = lit ''paella_valenciana_.pdf''"
proof
  show "fileName n = sanitized_spec n @ lit ''.pdf''"
    by (simp add: file_defs sanitized_spec_def)
  show "fileName (lit ''Paella Valenciana!'') = lit ''paella_valenciana_.pdf''"
    by (simp add: file_defs lit_def)
qed

subsection \<open>Difficulty labels\<close>

text \<open>
  C8. The difficulty label is \<open>Facil\<close> (with a-acute) for \<open>easy\<close>, \<open>Medio\<close> for \<open>medium\<close>,
  \<open>Dificil\<close> (with i-acute) for \<open>hard\<close> and \<open>No especificado\<close> for every other argument,
  the absent one included;
  the functions of the exporter, the list view and the detail view agree on every argument.
\<close>

theorem C8_difficulty:
  "getDifficultyText (Some (lit ''easy'')) = Facil \<and>
   getDifficultyText (Some (lit ''medium'')) = Medio \<and>
   getDifficultyText (Some (lit ''hard'')) = Dificil \<and>
   getDifficultyText None = No_especificado \<and>
   (d \<noteq> Some (lit ''easy'') \<and> d \<noteq> Some (lit ''medium'') \<and> d \<noteq> Some (lit ''hard'')
      \<longrightarrow> getDifficultyText d = No_especificado) \<and>
   getDifficultyText_list d = getDifficultyText d \<and>
   getDifficultyText_detail d = getDifficultyText d"
  by (simp add: getDifficultyText_def getDifficultyText_list_def getDifficultyText_detail_def
      lit_def)

theorem C8_difficulty_witness:
  "Some (lit ''expert'') \<noteq> Some (lit ''easy'') \<and> Some (lit ''expert'') \<noteq> Some (lit ''medium'') \<and>
   Some (lit ''expert'') \<noteq> Some (lit ''hard'') \<and>
   getDifficultyText (Some (lit ''expert'')) = lit ''No especificado'' \<and>
   getDifficultyText_list (Some (lit ''expert'')) = lit ''No especificado'' \<and>
   getDifficultyText_detail (Some (lit ''expert'')) = lit ''No especificado''"
  using C8_difficulty [of "Some (lit ''expert'')"]
  by (simp add: lit_def No_especificado_def)

subsection \<open>Sequencing\<close>

lemma bindP_Inr_iff:
  "bindP m f s = (Inr y, s') \<longleftrightarrow> (\<exists>x s1. m s = (Inr x, s1) \<and> f x s1 = (Inr y, s'))"
  by (auto simp: bindP_def split: prod.splits sum.splits)

lemma bindP_Inl_iff:
  "bindP m f s = (Inl e, s') \<longleftrightarrow>
     m s = (Inl e, s') \<or> (\<exists>x s1. m s = (Inr x, s1) \<and> f x s1 = (Inl e, s'))"
  by (auto simp: bindP_def split: prod.splits sum.splits)

lemma bindP_returnP: "bindP (returnP v) f = f v"
  by (simp add: bindP_def returnP_def)

lemma bindP_assoc: "bindP (bindP m f) g = bindP m (\<lambda>v. bindP (f v) g)"
  by (auto simp: bindP_def fun_eq_iff split: prod.splits sum.splits)

lemma seqP_Nil_Inr_iff: "seqP [] s = (Inr u, s') \<longleftrightarrow> s' = s"
  by (auto simp: returnP_def)

lemma seqP_Cons_Inr_iff:
  "seqP (m # ms) s = (Inr u, s') \<longleftrightarrow> (\<exists>s1. m s = (Inr (), s1) \<and> seqP ms s1 = (Inr (), s'))"
  by (auto simp: bindP_Inr_iff)

lemma seqP_Cons_Inl_iff:
  "seqP (m # ms) s = (Inl e, s') \<longleftrightarrow>
     m s = (Inl e, s') \<or> (\<exists>s1. m s = (Inr (), s1) \<and> seqP ms s1 = (Inl e, s'))"
  by (auto simp: bindP_Inl_iff)

lemma seqP_append: "seqP (ms @ ns) = bindP (seqP ms) (\<lambda>_. seqP ns)"
  by (induction ms) (simp_all add: bindP_returnP bindP_assoc)

lemma returnP_Inr_iff: "returnP v s = (Inr y, s') \<longleftrightarrow> y = v \<and> s' = s"
  by (auto simp: returnP_def)

lemma getsP_Inr_iff: "getsP f s = (Inr y, s') \<longleftrightarrow> y = f s \<and> s' = s"
  by (auto simp: getsP_def)

lemma modifyP_Inr_iff: "modifyP f s = (Inr u, s') \<longleftrightarrow> s' = f s"
  by (auto simp: modifyP_def)

lemma whenP_Inr_iff:
  "whenP b m s = (Inr u, s') \<longleftrightarrow> (if b then m s = (Inr (), s') else s' = s)"
  by (auto simp: whenP_def returnP_def)

lemma lib_call_Inr_iff:
  "lib_call E c f s = (Inr u, s') \<longleftrightarrow>
     \<not> throws E (doc s) c \<and> s' = s\<lparr>doc := f (doc s), issued := issued s @ [c]\<rparr>"
  by (auto simp: lib_call_def)

lemmas prim_Inr_iff = seqP_Nil_Inr_iff seqP_Cons_Inr_iff returnP_Inr_iff getsP_Inr_iff
  modifyP_Inr_iff whenP_Inr_iff lib_call_Inr_iff bindP_Inr_iff

lemmas pdf_defs = pdf_setFontSize_def pdf_setFont_def pdf_setTextColor_def pdf_setDrawColor_def
  pdf_splitTextToSize_def pdf_addPage_def pdf_text_def pdf_line_def setCurrentY_def advance_def

subsection \<open>Programs that return, programs that keep an observation\<close>

lemma returnsD: "returns m \<Longrightarrow> \<exists>v. fst (m s) = Inr v"
  unfolding returns_def by (metis sum.collapse(2))

lemma returns_unit: "returns m \<Longrightarrow> m s = (Inr (), snd (m s))"
  by (metis returnsD prod.collapse old.unit.exhaust)

lemma returns_returnP: "returns (returnP v)"
  by (simp add: returns_def returnP_def)

lemma returns_getsP: "returns (getsP f)"
  by (simp add: returns_def getsP_def)

lemma returns_modifyP: "returns (modifyP f)"
  by (simp add: returns_def modifyP_def)

lemma returns_bindP: "returns m \<Longrightarrow> (\<And>v. returns (f v)) \<Longrightarrow> returns (bindP m f)"
  by (auto simp: returns_def bindP_def split: prod.splits sum.splits) (metis fst_conv sum.disc(1))

lemma returns_seqP: "(\<And>m. m \<in> set ms \<Longrightarrow> returns m) \<Longrightarrow> returns (seqP ms)"
  by (induction ms) (simp_all add: returns_returnP returns_bindP)

lemma returns_whenP: "returns m \<Longrightarrow> returns (whenP b m)"
  by (simp add: whenP_def returns_returnP)

lemma returns_forEachFrom: "(\<And>x i. returns (f x i)) \<Longrightarrow> returns (forEachFrom f xs k)"
  by (induction xs arbitrary: k) (simp_all add: returns_returnP returns_bindP)

lemma returns_forEach: "(\<And>x i. returns (f x i)) \<Longrightarrow> returns (forEach f xs)"
  by (simp add: forEach_def returns_forEachFrom)

lemma keeps_returnP: "keeps g (returnP v)"
  by (simp add: keeps_def returnP_def)

lemma keeps_getsP: "keeps g (getsP f)"
  by (simp add: keeps_def getsP_def)

lemma keeps_modifyP: "(\<And>s. g (f s) = g s) \<Longrightarrow> keeps g (modifyP f)"
  by (simp add: keeps_def modifyP_def)

lemma keeps_bindP: "keeps g m \<Longrightarrow> (\<And>v. keeps g (f v)) \<Longrightarrow> keeps g (bindP m f)"
  by (auto simp: keeps_def bindP_def split: prod.splits sum.splits) (metis snd_conv)+

lemma keeps_seqP: "(\<And>m. m \<in> set ms \<Longrightarrow> keeps g m) \<Longrightarrow> keeps g (seqP ms)"
  by (induction ms) (simp_all add: keeps_returnP keeps_bindP)

lemma keeps_whenP: "keeps g m \<Longrightarrow> keeps g (whenP b m)"
  by (simp add: whenP_def keeps_returnP)

lemma keeps_forEachFrom: "(\<And>x i. keeps g (f x i)) \<Longrightarrow> keeps g (forEachFrom f xs k)"
  by (induction xs arbitrary: k) (simp_all add: keeps_returnP keeps_bindP)

lemma keeps_forEach: "(\<And>x i. keeps g (f x i)) \<Longrightarrow> keeps g (forEach f xs)"
  by (simp add: forEach_def keeps_forEachFrom)

lemma keepsD: "keeps g m \<Longrightarrow> m s = (r, s') \<Longrightarrow> g s' = g s"
  by (metis keeps_def snd_conv)


subsection \<open>Library calls\<close>

lemma returns_lib_call: "(\<And>d. \<not> throws E d c) \<Longrightarrow> returns (lib_call E c f)"
  by (simp add: returns_def lib_call_def)

lemma keeps_lib_call: "\<not> is_Save c \<Longrightarrow> keeps outputs (lib_call E c f)"
  by (simp add: keeps_def lib_call_def outputs_def)

lemma keeps_setCurrentY: "keeps outputs (setCurrentY v)"
  by (simp add: setCurrentY_def keeps_modifyP outputs_def)

lemma keeps_advance: "keeps outputs (advance v)"
  by (simp add: advance_def keeps_modifyP outputs_def)

lemmas keeps_intros = keeps_returnP keeps_getsP keeps_bindP keeps_seqP keeps_whenP
  keeps_forEach keeps_lib_call keeps_setCurrentY keeps_advance

lemmas returns_intros = returns_returnP returns_getsP returns_modifyP returns_bindP
  returns_seqP returns_whenP returns_forEach returns_lib_call

lemma keeps_addText: "keeps outputs (addText E G txt fs b c)"
  unfolding addText_def Let_def pdf_setFontSize_def pdf_setFont_def pdf_setTextColor_def
    pdf_splitTextToSize_def pdf_addPage_def pdf_text_def
  by (intro keeps_intros) (auto intro!: keeps_intros)

lemma keeps_addSeparator: "keeps outputs (addSeparator E G)"
  unfolding addSeparator_def pdf_setDrawColor_def pdf_addPage_def pdf_line_def
  by (intro keeps_intros) (auto intro!: keeps_intros)

lemma keeps_drawInfoRow: "keeps outputs (drawInfoRow E G y0 rh cw row i)"
  unfolding drawInfoRow_def Let_def pdf_setFont_def pdf_addPage_def pdf_text_def
  by (auto intro!: keeps_intros)

lemma keeps_infoTable: "keeps outputs (infoTable E G r)"
  unfolding infoTable_def Let_def pdf_setFontSize_def pdf_setFont_def pdf_setTextColor_def
  by (auto intro!: keeps_intros keeps_drawInfoRow)

lemma keeps_ingredientsSection: "keeps outputs (ingredientsSection E G r)"
  unfolding ingredientsSection_def
  by (auto intro!: keeps_intros keeps_addText)

lemma keeps_instructionsSection: "keeps outputs (instructionsSection E G r)"
  unfolding instructionsSection_def
  by (auto intro!: keeps_intros keeps_addText)

lemma keeps_renderContent: "keeps outputs (renderContent E G r)"
  unfolding renderContent_def
  by (auto intro!: keeps_intros keeps_addText keeps_addSeparator keeps_infoTable
      keeps_ingredientsSection keeps_instructionsSection split: option.splits)

lemma keeps_renderFooter: "keeps outputs (renderFooter E G)"
  unfolding renderFooter_def Let_def pdf_setFontSize_def pdf_setFont_def pdf_setTextColor_def
    pdf_text_def
  by (auto intro!: keeps_intros)


subsection \<open>A library that does not throw\<close>

lemma returns_addText: "(\<And>d c. \<not> throws E d c) \<Longrightarrow> returns (addText E G txt fs b c)"
  unfolding addText_def Let_def pdf_setFontSize_def pdf_setFont_def pdf_setTextColor_def
    pdf_splitTextToSize_def pdf_addPage_def pdf_text_def setCurrentY_def advance_def
  by (auto intro!: returns_intros)

lemma returns_addSeparator: "(\<And>d c. \<not> throws E d c) \<Longrightarrow> returns (addSeparator E G)"
  unfolding addSeparator_def pdf_setDrawColor_def pdf_addPage_def pdf_line_def setCurrentY_def
    advance_def
  by (auto intro!: returns_intros)

lemma returns_drawInfoRow:
  "(\<And>d c. \<not> throws E d c) \<Longrightarrow> returns (drawInfoRow E G y0 rh cw row i)"
  unfolding drawInfoRow_def Let_def pdf_setFont_def pdf_addPage_def pdf_text_def setCurrentY_def
  by (auto intro!: returns_intros)

lemma returns_infoTable: "(\<And>d c. \<not> throws E d c) \<Longrightarrow> returns (infoTable E G r)"
  unfolding infoTable_def Let_def pdf_setFontSize_def pdf_setFont_def pdf_setTextColor_def
    setCurrentY_def
  by (auto intro!: returns_intros returns_drawInfoRow)

lemma returns_ingredientsSection:
  "(\<And>d c. \<not> throws E d c) \<Longrightarrow> returns (ingredientsSection E G r)"
  unfolding ingredientsSection_def advance_def
  by (auto intro!: returns_intros returns_addText)

lemma returns_instructionsSection:
  "(\<And>d c. \<not> throws E d c) \<Longrightarrow> returns (instructionsSection E G r)"
  unfolding instructionsSection_def advance_def
  by (auto intro!: returns_intros returns_addText)

lemma returns_renderContent: "(\<And>d c. \<not> throws E d c) \<Longrightarrow> returns (renderContent E G r)"
  unfolding renderContent_def advance_def
  by (auto intro!: returns_intros returns_addText returns_addSeparator returns_infoTable
      returns_ingredientsSection returns_instructionsSection split: option.splits)

lemma returns_renderFooter: "(\<And>d c. \<not> throws E d c) \<Longrightarrow> returns (renderFooter E G)"
  unfolding renderFooter_def Let_def pdf_setFontSize_def pdf_setFont_def pdf_setTextColor_def
    pdf_text_def
  by (auto intro!: returns_intros)

lemma returns_pdf_save: "(\<And>d c. \<not> throws E d c) \<Longrightarrow> returns (pdf_save E f)"
  by (simp add: returns_def pdf_save_def)

lemma returns_tryBlock: "(\<And>d c. \<not> throws E d c) \<Longrightarrow> returns (tryBlock E G r)"
  unfolding tryBlock_def
  by (auto intro!: returns_intros returns_renderContent returns_renderFooter returns_pdf_save)

lemma returns_tryCatch: "returns m \<Longrightarrow> returns (tryCatch m h)"
  by (auto simp: returns_def tryCatch_def split: prod.splits sum.splits) (metis fst_conv sum.disc(1))

lemma returns_new_jsPDF: "(\<And>d c. \<not> throws E d c) \<Longrightarrow> returns (new_jsPDF E)"
  by (simp add: returns_def new_jsPDF_def)

lemma returns_generateRecipePDF:
  "(\<And>d c. \<not> throws E d c) \<Longrightarrow> returns (generateRecipePDF E r)"
  unfolding generateRecipePDF_def Let_def pdf_getWidth_def pdf_getHeight_def setCurrentY_def
  by (auto intro!: returns_intros returns_tryCatch returns_tryBlock returns_new_jsPDF)

subsection \<open>What is thrown\<close>

lemma blames_returnP: "blames (returnP v)"
  by (simp add: blames_def returnP_def)

lemma blames_getsP: "blames (getsP f)"
  by (simp add: blames_def getsP_def)

lemma blames_modifyP: "blames (modifyP f)"
  by (simp add: blames_def modifyP_def)

lemma blames_bindP: "blames m \<Longrightarrow> (\<And>v. blames (f v)) \<Longrightarrow> blames (bindP m f)"
  unfolding blames_def bindP_Inl_iff by blast

lemma blames_seqP: "(\<And>m. m \<in> set ms \<Longrightarrow> blames m) \<Longrightarrow> blames (seqP ms)"
  by (induction ms) (simp_all add: blames_returnP blames_bindP)

lemma blames_whenP: "blames m \<Longrightarrow> blames (whenP b m)"
  by (simp add: whenP_def blames_returnP)

lemma blames_forEachFrom: "(\<And>x i. blames (f x i)) \<Longrightarrow> blames (forEachFrom f xs k)"
  by (induction xs arbitrary: k) (simp_all add: blames_returnP blames_bindP)

lemma blames_forEach: "(\<And>x i. blames (f x i)) \<Longrightarrow> blames (forEach f xs)"
  by (simp add: forEach_def blames_forEachFrom)

lemma blames_lib_call: "blames (lib_call E c f)"
  by (auto simp: blames_def lib_call_def split: if_splits)

lemma blames_pdf_save: "blames (pdf_save E f)"
  by (auto simp: blames_def pdf_save_def split: if_splits)

lemmas blames_intros = blames_returnP blames_getsP blames_modifyP blames_bindP blames_seqP
  blames_whenP blames_forEach blames_lib_call blames_pdf_save

lemma blames_addText: "blames (addText E G txt fs b c)"
  unfolding addText_def Let_def pdf_setFontSize_def pdf_setFont_def pdf_setTextColor_def
    pdf_splitTextToSize_def pdf_addPage_def pdf_text_def setCurrentY_def advance_def
  by (auto intro!: blames_intros)

lemma blames_addSeparator: "blames (addSeparator E G)"
  unfolding addSeparator_def pdf_setDrawColor_def pdf_addPage_def pdf_line_def setCurrentY_def
    advance_def
  by (auto intro!: blames_intros)

lemma blames_drawInfoRow: "blames (drawInfoRow E G y0 rh cw row i)"
  unfolding drawInfoRow_def Let_def pdf_setFont_def pdf_addPage_def pdf_text_def setCurrentY_def
  by (auto intro!: blames_intros)

lemma blames_infoTable: "blames (infoTable E G r)"
  unfolding infoTable_def Let_def pdf_setFontSize_def pdf_setFont_def pdf_setTextColor_def
    setCurrentY_def
  by (auto intro!: blames_intros blames_drawInfoRow)

lemma blames_ingredientsSection: "blames (ingredientsSection E G r)"
  unfolding ingredientsSection_def advance_def
  by (auto intro!: blames_intros blames_addText)

lemma blames_instructionsSection: "blames (instructionsSection E G r)"
  unfolding instructionsSection_def advance_def
  by (auto intro!: blames_intros blames_addText)

lemma blames_renderContent: "blames (renderContent E G r)"
  unfolding renderContent_def advance_def
  by (auto intro!: blames_intros blames_addText blames_addSeparator blames_infoTable
      blames_ingredientsSection blames_instructionsSection split: option.splits)

lemma blames_renderFooter: "blames (renderFooter E G)"
  unfolding renderFooter_def Let_def pdf_setFontSize_def pdf_setFont_def pdf_setTextColor_def
    pdf_text_def
  by (auto intro!: blames_intros)

lemma blames_tryBlock: "blames (tryBlock E G r)"
  unfolding tryBlock_def
  by (auto intro!: blames_intros blames_renderContent blames_renderFooter)

subsection \<open>Failure and success of the export routine\<close>

lemma tryBlock_Inl:
  assumes "tryBlock E G r s0 = (Inl e0, s1)"
  shows "outputs s1 = outputs s0 \<or> (is_Save (last (issued s1)) \<and> saved s1 = saved s0 \<and> console s1 = console s0)"
    and "e0 = Thrown (last (issued s1))"
proof -
  show "e0 = Thrown (last (issued s1))"
    using assms blames_tryBlock unfolding blames_def by blast
  from assms consider
    (content) "renderContent E G r s0 = (Inl e0, s1)"
  | (footer) sc where "renderContent E G r s0 = (Inr (), sc)" "renderFooter E G sc = (Inl e0, s1)"
  | (save) sc sf where "renderContent E G r s0 = (Inr (), sc)" "renderFooter E G sc = (Inr (), sf)"
      "pdf_save E (fileName (name r)) sf = (Inl e0, s1)"
    unfolding tryBlock_def seqP_Cons_Inl_iff by (auto simp: returnP_def)
  then show "outputs s1 = outputs s0 \<or> (is_Save (last (issued s1)) \<and> saved s1 = saved s0 \<and> console s1 = console s0)"
  proof cases
    case content
    then show ?thesis using keepsD [OF keeps_renderContent] by blast
  next
    case footer
    then show ?thesis
      using keepsD [OF keeps_renderContent] keepsD [OF keeps_renderFooter] by metis
  next
    case save
    have "outputs sf = outputs s0"
      using save keepsD [OF keeps_renderContent] keepsD [OF keeps_renderFooter] by metis
    moreover have "s1 = sf\<lparr>issued := issued sf @ [Save (fileName (name r))]\<rparr>"
      using save(3) by (auto simp: pdf_save_def split: if_splits)
    ultimately show ?thesis by (simp add: outputs_def)
  qed
qed

lemma bindP_step: "m s = (Inr v, s1) \<Longrightarrow> bindP m f s = f v s1"
  by (simp add: bindP_def)

lemma setup_Inr:
  assumes "\<not> throws E new_pdf New" "\<not> throws E new_pdf GetWidth" "\<not> throws E new_pdf GetHeight"
  shows "generateRecipePDF E r s =
     tryCatch (tryBlock E (geometry_of E) r)
       (\<lambda>e. seqP [console_error e, throwP generation_failed]) (try_state s)"
proof -
  let ?s1 = "s\<lparr>doc := new_pdf, issued := issued s @ [New]\<rparr>"
  let ?s2 = "s\<lparr>doc := new_pdf, issued := issued s @ [New, GetWidth]\<rparr>"
  let ?s3 = "s\<lparr>doc := new_pdf, issued := issued s @ [New, GetWidth, GetHeight]\<rparr>"
  have 1: "new_jsPDF E s = (Inr (), ?s1)"
    using assms(1) by (simp add: new_jsPDF_def)
  have 2: "pdf_getWidth E ?s1 = (Inr (getWidth E), ?s2)"
    using assms(2) by (simp add: pdf_getWidth_def lib_call_def bindP_def returnP_def)
  have 3: "pdf_getHeight E ?s2 = (Inr (getHeight E), ?s3)"
    using assms(3) by (simp add: pdf_getHeight_def lib_call_def bindP_def returnP_def)
  have 4: "setCurrentY 20 ?s3 = (Inr (), try_state s)"
    by (simp add: setCurrentY_def modifyP_def try_state_def)
  have 5: "bindP m returnP = m" for m :: "(export_state, error, unit) prog"
    by (auto simp: bindP_def returnP_def fun_eq_iff split: prod.splits sum.splits)
  show ?thesis
    unfolding generateRecipePDF_def
    by (simp add: bindP_step [of "new_jsPDF E", OF 1] bindP_step [of "pdf_getWidth E", OF 2]
        bindP_step [of "pdf_getHeight E", OF 3] Let_def
        bindP_step [of "setCurrentY 20", OF 4] 5 geometry_of_def)
qed

text \<open>
  Lines 10-12 come before the \<open>try\<close> block: what the constructor or a page-size read
  throws reaches the caller as it is.
\<close>

lemma constructor_throws:
  "throws E new_pdf New \<Longrightarrow>
   generateRecipePDF E r s = (Inl (Thrown New), s\<lparr>issued := issued s @ [New]\<rparr>)"
  by (simp add: generateRecipePDF_def new_jsPDF_def bindP_def)

lemma getWidth_throws:
  "\<not> throws E new_pdf New \<Longrightarrow> throws E new_pdf GetWidth \<Longrightarrow>
   generateRecipePDF E r s =
     (Inl (Thrown GetWidth), s\<lparr>doc := new_pdf, issued := issued s @ [New, GetWidth]\<rparr>)"
  by (simp add: generateRecipePDF_def new_jsPDF_def pdf_getWidth_def lib_call_def bindP_def)

lemma getHeight_throws:
  "\<not> throws E new_pdf New \<Longrightarrow> \<not> throws E new_pdf GetWidth \<Longrightarrow> throws E new_pdf GetHeight \<Longrightarrow>
   generateRecipePDF E r s =
     (Inl (Thrown GetHeight), s\<lparr>doc := new_pdf, issued := issued s @ [New, GetWidth, GetHeight]\<rparr>)"
  by (simp add: generateRecipePDF_def new_jsPDF_def pdf_getWidth_def pdf_getHeight_def
      lib_call_def bindP_def returnP_def)

lemma catch_Inl:
  "m s0 = (Inl e0, s1) \<Longrightarrow>
   tryCatch m (\<lambda>e. seqP [console_error e, throwP generation_failed]) s0
     = (Inl generation_failed, s1\<lparr>console := console s1 @ [e0]\<rparr>)"
  by (simp add: tryCatch_def console_error_def modifyP_def throwP_def bindP_def)

lemma catch_Inr:
  "m s0 = (Inr v, s1) \<Longrightarrow> tryCatch m h s0 = (Inr v, s1)"
  by (simp add: tryCatch_def)

text \<open>
  C5 (as amended). When anything inside the \<open>try\<close> block throws (the layout and rendering
  of lines 53-145, or the \<open>save\<close>), the export routine throws the one error
  \<open>No se pudo generar el PDF\<close> to its caller, after writing what was thrown to the console;
  no file has been saved; and unless the call that threw was the \<open>save\<close> itself, \<open>save\<close>
  has not been called. What the constructor or the reading of the page width or height
  throws (lines 10-12, before the \<open>try\<close> block) reaches the caller as it is. When the \<open>try\<close>
  block runs to its end, the routine returns normally.
\<close>

theorem C5_generation_failed:
  "(throws E new_pdf New \<longrightarrow>
      generateRecipePDF E recipe s = (Inl (Thrown New), s\<lparr>issued := issued s @ [New]\<rparr>)) \<and>
   (\<not> throws E new_pdf New \<and> throws E new_pdf GetWidth \<longrightarrow>
      generateRecipePDF E recipe s =
        (Inl (Thrown GetWidth), s\<lparr>doc := new_pdf, issued := issued s @ [New, GetWidth]\<rparr>)) \<and>
   (\<not> throws E new_pdf New \<and> \<not> throws E new_pdf GetWidth \<and> throws E new_pdf GetHeight \<longrightarrow>
      generateRecipePDF E recipe s =
        (Inl (Thrown GetHeight),
         s\<lparr>doc := new_pdf, issued := issued s @ [New, GetWidth, GetHeight]\<rparr>)) \<and>
   (\<not> throws E new_pdf New \<and> \<not> throws E new_pdf GetWidth \<and> \<not> throws E new_pdf GetHeight \<and>
    tryBlock E (geometry_of E) recipe (try_state s) = (Inl e0, s1) \<longrightarrow>
      generateRecipePDF E recipe s
        = (Inl generation_failed, s1\<lparr>console := console s1 @ [e0]\<rparr>) \<and>
      saved s1 = saved s \<and> console s1 = console s \<and>
      e0 = Thrown (last (issued s1)) \<and>
      (\<not> is_Save (last (issued s1)) \<longrightarrow>
         filter is_Save (issued s1) = filter is_Save (issued s))) \<and>
   (\<not> throws E new_pdf New \<and> \<not> throws E new_pdf GetWidth \<and> \<not> throws E new_pdf GetHeight \<and>
    tryBlock E (geometry_of E) recipe (try_state s) = (Inr (), s1) \<longrightarrow>
      generateRecipePDF E recipe s = (Inr (), s1))"
proof (intro conjI impI)
  assume "throws E new_pdf New"
  then show "generateRecipePDF E recipe s = (Inl (Thrown New), s\<lparr>issued := issued s @ [New]\<rparr>)"
    by (rule constructor_throws)
next
  assume "\<not> throws E new_pdf New \<and> throws E new_pdf GetWidth"
  then show "generateRecipePDF E recipe s =
        (Inl (Thrown GetWidth), s\<lparr>doc := new_pdf, issued := issued s @ [New, GetWidth]\<rparr>)"
    by (simp add: getWidth_throws)
next
  assume "\<not> throws E new_pdf New \<and> \<not> throws E new_pdf GetWidth \<and> throws E new_pdf GetHeight"
  then show "generateRecipePDF E recipe s =
        (Inl (Thrown GetHeight),
         s\<lparr>doc := new_pdf, issued := issued s @ [New, GetWidth, GetHeight]\<rparr>)"
    by (simp add: getHeight_throws)
next
  assume a: "\<not> throws E new_pdf New \<and> \<not> throws E new_pdf GetWidth \<and>
    \<not> throws E new_pdf GetHeight \<and>
    tryBlock E (geometry_of E) recipe (try_state s) = (Inl e0, s1)"
  then have c: "\<not> throws E new_pdf New" "\<not> throws E new_pdf GetWidth"
      "\<not> throws E new_pdf GetHeight"
    and t: "tryBlock E (geometry_of E) recipe (try_state s) = (Inl e0, s1)"
    by simp_all
  show "generateRecipePDF E recipe s = (Inl generation_failed, s1\<lparr>console := console s1 @ [e0]\<rparr>)"
    unfolding setup_Inr [OF c]
    using t by (rule catch_Inl [of "tryBlock E (geometry_of E) recipe"])
  have out0: "outputs (try_state s) = outputs s"
    by (simp add: outputs_def try_state_def)
  show "e0 = Thrown (last (issued s1))"
    by (rule tryBlock_Inl(2) [OF t])
  from tryBlock_Inl(1) [OF t] out0 show "saved s1 = saved s" "console s1 = console s"
    by (auto simp: outputs_def)
  assume "\<not> is_Save (last (issued s1))"
  with tryBlock_Inl(1) [OF t] out0
  show "filter is_Save (issued s1) = filter is_Save (issued s)"
    by (auto simp: outputs_def)
next
  assume a: "\<not> throws E new_pdf New \<and> \<not> throws E new_pdf GetWidth \<and>
    \<not> throws E new_pdf GetHeight \<and>
    tryBlock E (geometry_of E) recipe (try_state s) = (Inr (), s1)"
  then have c: "\<not> throws E new_pdf New" "\<not> throws E new_pdf GetWidth"
      "\<not> throws E new_pdf GetHeight"
    and t: "tryBlock E (geometry_of E) recipe (try_state s) = (Inr (), s1)"
    by simp_all
  show "generateRecipePDF E recipe s = (Inr (), s1)"
    unfolding setup_Inr [OF c]
    using t by (rule catch_Inr [of "tryBlock E (geometry_of E) recipe"])
qed


text \<open>
  C5, as stated, fails where the layout reads the page height (line 12): when that call
  throws, the caller receives what it threw, not the generic error, and nothing is written
  to the console.
\<close>

theorem C5_counterexample:
  "fst (generateRecipePDF broken_env tarta start) = Inl (Thrown GetHeight) \<and>
   Thrown GetHeight \<noteq> generation_failed \<and>
   console (snd (generateRecipePDF broken_env tarta start)) = []"
  by (simp add: generateRecipePDF_def new_jsPDF_def pdf_getWidth_def pdf_getHeight_def
      lib_call_def bindP_def returnP_def broken_env_def example_env_def start_def
      generation_failed_def)

lemmas run_defs = tryCatch_def tryBlock_def renderContent_def addText_def bindP_def returnP_def
  throwP_def getsP_def modifyP_def whenP_def lib_call_def pdf_defs console_error_def Let_def
  geometry_of_def try_state_def start_def new_pdf_def

lemma failing_tryBlock:
  "fst (tryBlock failing_env (geometry_of failing_env) tarta (try_state start))
     = Inl (Thrown (TextCall [lit ''Tarta de Manzana''] 20 20))"
  by (simp add: run_defs failing_env_def example_env_def tarta_def lit_def)

theorem C5_generation_failed_witness:
  "throws no_document_env new_pdf New \<and>
   fst (generateRecipePDF no_document_env tarta start) = Inl (Thrown New) \<and>
   \<not> throws no_width_env new_pdf New \<and> throws no_width_env new_pdf GetWidth \<and>
   fst (generateRecipePDF no_width_env tarta start) = Inl (Thrown GetWidth) \<and>
   \<not> throws broken_env new_pdf New \<and> \<not> throws broken_env new_pdf GetWidth \<and>
   throws broken_env new_pdf GetHeight \<and>
   fst (generateRecipePDF broken_env tarta start) = Inl (Thrown GetHeight) \<and>
   \<not> throws failing_env new_pdf New \<and> \<not> throws failing_env new_pdf GetWidth \<and>
   \<not> throws failing_env new_pdf GetHeight \<and>
   tryBlock failing_env (geometry_of failing_env) tarta (try_state start)
     = (Inl (Thrown (TextCall [lit ''Tarta de Manzana''] 20 20)),
        snd (tryBlock failing_env (geometry_of failing_env) tarta (try_state start))) \<and>
   \<not> is_Save (last (issued (snd (tryBlock failing_env (geometry_of failing_env) tarta
       (try_state start))))) \<and>
   fst (generateRecipePDF failing_env tarta start) = Inl generation_failed \<and>
   saved (snd (generateRecipePDF failing_env tarta start)) = [] \<and>
   console (snd (generateRecipePDF failing_env tarta start))
     = [Thrown (TextCall [lit ''Tarta de Manzana''] 20 20)] \<and>
   filter is_Save (issued (snd (generateRecipePDF failing_env tarta start))) = [] \<and>
   \<not> throws example_env new_pdf New \<and> \<not> throws example_env new_pdf GetWidth \<and>
   \<not> throws example_env new_pdf GetHeight \<and>
   tryBlock example_env (geometry_of example_env) tarta (try_state start)
     = (Inr (), snd (tryBlock example_env (geometry_of example_env) tarta (try_state start))) \<and>
   fst (generateRecipePDF example_env tarta start) = Inr ()"
proof -
  let ?e0 = "Thrown (TextCall [lit ''Tarta de Manzana''] 20 20)"
  let ?s1 = "snd (tryBlock failing_env (geometry_of failing_env) tarta (try_state start))"
  let ?s2 = "snd (tryBlock example_env (geometry_of example_env) tarta (try_state start))"
  have n: "throws no_document_env new_pdf New"
    by (simp add: no_document_env_def)
  have w: "\<not> throws no_width_env new_pdf New" "throws no_width_env new_pdf GetWidth"
    by (simp_all add: no_width_env_def)
  have h: "\<not> throws broken_env new_pdf New" "\<not> throws broken_env new_pdf GetWidth"
    "throws broken_env new_pdf GetHeight"
    by (simp_all add: broken_env_def)
  have f: "\<not> throws failing_env new_pdf New" "\<not> throws failing_env new_pdf GetWidth"
    "\<not> throws failing_env new_pdf GetHeight"
    by (simp_all add: failing_env_def)
  have q: "\<And>d c. \<not> throws example_env d c"
    by (simp add: example_env_def)
  have t1: "tryBlock failing_env (geometry_of failing_env) tarta (try_state start) = (Inl ?e0, ?s1)"
    using failing_tryBlock by (metis prod.collapse)
  have t2: "tryBlock example_env (geometry_of example_env) tarta (try_state start) = (Inr (), ?s2)"
    by (rule returns_unit [OF returns_tryBlock [OF q]])
  have 1: "fst (generateRecipePDF no_document_env tarta start) = Inl (Thrown New)"
    using C5_generation_failed [of no_document_env tarta start] n by simp
  have 2: "fst (generateRecipePDF no_width_env tarta start) = Inl (Thrown GetWidth)"
    using C5_generation_failed [of no_width_env tarta start] w by simp
  have 3: "fst (generateRecipePDF broken_env tarta start) = Inl (Thrown GetHeight)"
    using C5_generation_failed [of broken_env tarta start] h by simp
  from C5_generation_failed [of failing_env tarta start ?e0 ?s1] f t1
  have 4: "generateRecipePDF failing_env tarta start
        = (Inl generation_failed, ?s1\<lparr>console := console ?s1 @ [?e0]\<rparr>)"
    and 5: "saved ?s1 = saved start" "console ?s1 = console start"
    and 6: "?e0 = Thrown (last (issued ?s1))"
    and 7: "\<not> is_Save (last (issued ?s1)) \<longrightarrow>
         filter is_Save (issued ?s1) = filter is_Save (issued start)"
    by blast+
  from 6 have 8: "last (issued ?s1) = TextCall [lit ''Tarta de Manzana''] 20 20"
    by simp
  then have 9: "\<not> is_Save (last (issued ?s1))"
    by simp
  have x: "\<not> throws example_env new_pdf New" "\<not> throws example_env new_pdf GetWidth"
    "\<not> throws example_env new_pdf GetHeight"
    by (simp_all add: q)
  from C5_generation_failed [of example_env tarta start _ ?s2] x t2
  have "generateRecipePDF example_env tarta start = (Inr (), ?s2)"
    by blast
  then have 10: "fst (generateRecipePDF example_env tarta start) = Inr ()"
    by simp
  have st: "saved start = []" "console start = []" "issued start = []"
    by (simp_all add: start_def)
  have 11: "saved (snd (generateRecipePDF failing_env tarta start)) = []"
    "console (snd (generateRecipePDF failing_env tarta start)) = [?e0]"
    "filter is_Save (issued (snd (generateRecipePDF failing_env tarta start))) = []"
    "fst (generateRecipePDF failing_env tarta start) = Inl generation_failed"
    using 5 7 9 by (simp_all add: 4 st)
  from n w h f x 1 2 3 t1 t2 9 10 11 show ?thesis
    by blast
qed

lemma success_created:
  assumes "generateRecipePDF E r s = (Inr (), s')"
  shows "\<not> throws E new_pdf New" "\<not> throws E new_pdf GetWidth" "\<not> throws E new_pdf GetHeight"
  using assms
  by (auto simp: generateRecipePDF_def bindP_Inr_iff new_jsPDF_def pdf_getWidth_def
      pdf_getHeight_def lib_call_Inr_iff returnP_Inr_iff split: if_splits)

lemma renderFooter_Inr:
  assumes "renderFooter E G sc = (Inr (), sf)"
  shows "page (doc sf) = page (doc sc) @
           [Text [footerLabel] (margin G) (pageHeight G - 15),
            Text [toLocaleDateString E] (pageWidth G - margin G - 30) (pageHeight G - 15)]"
    and "prev_pages (doc sf) = prev_pages (doc sc)"
  using assms by (auto simp: renderFooter_def Let_def prim_Inr_iff pdf_defs)

text \<open>
  C10. On every successful export the two footer items, the label and the date, are the
  last items of the page that was current when the content was finished; both are drawn
  at \<open>pageHeight - 15\<close>, whatever the cursor is, and that is below the content limit
  \<open>pageHeight - margin\<close>; the document saved is the one with the footer.
\<close>

theorem C10_footer:
  assumes run: "generateRecipePDF E recipe s = (Inr (), s')"
  shows "page (doc s') = page (doc (content_state E recipe s)) @
           [Text [footerLabel] 20 (getHeight E - 15),
            Text [toLocaleDateString E] (getWidth E - 20 - 30) (getHeight E - 15)] \<and>
         prev_pages (doc s') = prev_pages (doc (content_state E recipe s)) \<and>
         saved s' = saved s @ [(fileName (name recipe), doc s')] \<and>
         getHeight E - 15 > pageHeight (geometry_of E) - margin (geometry_of E)"
proof -
  let ?G = "geometry_of E"
  have "tryCatch (tryBlock E ?G recipe)
          (\<lambda>e. seqP [console_error e, throwP generation_failed]) (try_state s) = (Inr (), s')"
    using run setup_Inr [OF success_created [OF run]] by simp
  then have "tryBlock E ?G recipe (try_state s) = (Inr (), s')"
    by (auto simp: tryCatch_def throwP_def console_error_def modifyP_def bindP_def
        split: prod.splits sum.splits)
  then obtain sc sf where c: "renderContent E ?G recipe (try_state s) = (Inr (), sc)"
    and f: "renderFooter E ?G sc = (Inr (), sf)"
    and v: "pdf_save E (fileName (name recipe)) sf = (Inr (), s')"
    unfolding tryBlock_def seqP_Cons_Inr_iff seqP_Nil_Inr_iff by auto
  have sc: "sc = content_state E recipe s"
    using c by (simp add: content_state_def)
  have "outputs sf = outputs s"
    using keepsD [OF keeps_renderContent c] keepsD [OF keeps_renderFooter f]
    by (simp add: outputs_def try_state_def)
  then have sv: "saved sf = saved s"
    by (simp add: outputs_def)
  have s': "s' = sf\<lparr>issued := issued sf @ [Save (fileName (name recipe))],
                    saved := saved sf @ [(fileName (name recipe), doc sf)]\<rparr>"
    using v by (auto simp: pdf_save_def split: if_splits)
  show ?thesis
    using renderFooter_Inr [OF f] sc sv s' by (simp add: geometry_of_def)
qed

theorem C10_footer_witness:
  "generateRecipePDF example_env tarta start =
     (Inr (), snd (generateRecipePDF example_env tarta start)) \<and>
   map fst (saved (snd (generateRecipePDF example_env tarta start))) = [lit ''tarta_de_manzana.pdf''] \<and>
   last (page (doc (snd (generateRecipePDF example_env tarta start)))) = Text [lit ''2/11/2026''] 160 282"
proof -
  have q: "\<And>d c. \<not> throws example_env d c"
    by (simp add: example_env_def)
  have run: "generateRecipePDF example_env tarta start =
     (Inr (), snd (generateRecipePDF example_env tarta start))"
    by (rule returns_unit [OF returns_generateRecipePDF [OF q]])
  from C10_footer [OF run] run show ?thesis
    by (simp add: example_env_def start_def tarta_def file_defs lit_def)
qed

subsection \<open>Text blocks\<close>

lemma page_break_Inr_iff:
  "bindP (getsP currentY) (\<lambda>y. whenP (y + h > (lmt::real)) (seqP [pdf_addPage E, setCurrentY m])) s
     = (Inr (), s')
   \<longleftrightarrow> (if currentY s + h > lmt
        then \<not> throws E (doc s) AddPage \<and>
             s' = s\<lparr>doc := (doc s)\<lparr>prev_pages := prev_pages (doc s) @ [page (doc s)], page := []\<rparr>,
                     issued := issued s @ [AddPage], currentY := m\<rparr>
        else s' = s)"
  by (simp add: prim_Inr_iff pdf_defs)

lemma addText_Inr:
  assumes "addText E G txt fs b c s = (Inr (), s')"
  shows "prev_pages (doc s') =
           (if breaksPage E G txt fs b c s then prev_pages (doc s) @ [page (doc s)]
            else prev_pages (doc s))"
    and "page (doc s') =
           (if breaksPage E G txt fs b c s then [] else page (doc s))
           @ [Text (blockLines E G (doc s) txt fs b c) (margin G) (blockY E G txt fs b c s)]"
    and "currentY s' = blockY E G txt fs b c s + (blockHeight E G (doc s) txt fs b c + 5)"
  using assms
  unfolding addText_def Let_def seqP_Cons_Inr_iff seqP_Nil_Inr_iff page_break_Inr_iff
  by (cases "breaksPage E G txt fs b c s";
      clarsimp simp: prim_Inr_iff pdf_defs breaksPage_def blockY_def blockHeight_def
        blockLines_def styled_def)+

text \<open>
  C2 (as amended). Whenever \<open>addText\<close> returns, from any state: it has started a new page
  before drawing exactly when the cursor plus the block height (the number of lines times
  the font size times 0.4) exceeded \<open>pageHeight - margin\<close>, and then drew the block at the
  top margin, otherwise at the cursor; the cursor is afterwards the position of the block
  plus its height plus 5; a block that fits between the two margins ends at or above
  \<open>pageHeight - margin\<close>; and every block of non-negative height starts at or above that
  line, on a page that is higher than its two margins.
\<close>

theorem C2_addText:
  assumes run: "addText E G txt fs b c s = (Inr (), s')"
  shows "prev_pages (doc s') =
           (if currentY s + blockHeight E G (doc s) txt fs b c > pageHeight G - margin G
            then prev_pages (doc s) @ [page (doc s)] else prev_pages (doc s)) \<and>
         page (doc s') =
           (if currentY s + blockHeight E G (doc s) txt fs b c > pageHeight G - margin G
            then [] else page (doc s))
           @ [Text (blockLines E G (doc s) txt fs b c) (margin G) (blockY E G txt fs b c s)] \<and>
         blockY E G txt fs b c s =
           (if currentY s + blockHeight E G (doc s) txt fs b c > pageHeight G - margin G
            then margin G else currentY s) \<and>
         currentY s' = blockY E G txt fs b c s + (blockHeight E G (doc s) txt fs b c + 5) \<and>
         (margin G + blockHeight E G (doc s) txt fs b c \<le> pageHeight G - margin G \<longrightarrow>
            blockY E G txt fs b c s + blockHeight E G (doc s) txt fs b c
              \<le> pageHeight G - margin G) \<and>
         (0 \<le> blockHeight E G (doc s) txt fs b c \<and> margin G \<le> pageHeight G - margin G \<longrightarrow>
            blockY E G txt fs b c s \<le> pageHeight G - margin G)"
  using addText_Inr [OF run]
  by (simp add: breaksPage_def blockY_def)

lemma split_lines_example: "split_lines (lit ''Ingredientes'') = [lit ''Ingredientes'']"
  by (simp add: lit_def)

theorem C2_addText_witness:
  "addText example_env (geometry_of example_env) (lit ''Ingredientes'') 18 True (lit ''#f97316'')
     (start\<lparr>currentY := 270\<rparr>)
   = (Inr (), snd (addText example_env (geometry_of example_env) (lit ''Ingredientes'') 18 True
        (lit ''#f97316'') (start\<lparr>currentY := 270\<rparr>))) \<and>
   margin (geometry_of example_env)
     + blockHeight example_env (geometry_of example_env) new_pdf (lit ''Ingredientes'') 18 True
         (lit ''#f97316'')
     \<le> pageHeight (geometry_of example_env) - margin (geometry_of example_env) \<and>
   0 \<le> blockHeight example_env (geometry_of example_env) new_pdf (lit ''Ingredientes'') 18 True
         (lit ''#f97316'') \<and>
   margin (geometry_of example_env)
     \<le> pageHeight (geometry_of example_env) - margin (geometry_of example_env) \<and>
   prev_pages (doc (snd (addText example_env (geometry_of example_env) (lit ''Ingredientes'') 18
     True (lit ''#f97316'') (start\<lparr>currentY := 270\<rparr>)))) = [[]] \<and>
   page (doc (snd (addText example_env (geometry_of example_env) (lit ''Ingredientes'') 18
     True (lit ''#f97316'') (start\<lparr>currentY := 270\<rparr>)))) = [Text [lit ''Ingredientes''] 20 20] \<and>
   currentY (snd (addText example_env (geometry_of example_env) (lit ''Ingredientes'') 18
     True (lit ''#f97316'') (start\<lparr>currentY := 270\<rparr>))) = 32.2"
proof -
  let ?run = "addText example_env (geometry_of example_env) (lit ''Ingredientes'') 18 True
     (lit ''#f97316'') (start\<lparr>currentY := 270\<rparr>)"
  have q: "\<And>d c. \<not> throws example_env d c"
    by (simp add: example_env_def)
  have run: "?run = (Inr (), snd ?run)"
    by (rule returns_unit [OF returns_addText [OF q]])
  have h: "blockHeight example_env (geometry_of example_env) new_pdf (lit ''Ingredientes'') 18 True
         (lit ''#f97316'') = 7.2"
    by (simp add: blockHeight_def blockLines_def example_env_def split_lines_example)
  have l: "blockLines example_env (geometry_of example_env) new_pdf (lit ''Ingredientes'') 18 True
         (lit ''#f97316'') = [lit ''Ingredientes'']"
    by (simp add: blockLines_def example_env_def split_lines_example)
  have g: "margin (geometry_of example_env) = 20" "pageHeight (geometry_of example_env) = 297"
    by (simp_all add: geometry_of_def example_env_def)
  have s: "doc (start\<lparr>currentY := 270\<rparr>) = new_pdf" "currentY (start\<lparr>currentY := 270\<rparr>) = 270"
    by (simp_all add: start_def)
  have p: "prev_pages new_pdf = []" "page new_pdf = []"
    by (simp_all add: new_pdf_def)
  from C2_addText [OF run] have
    "prev_pages (doc (snd ?run)) = [[]] \<and> page (doc (snd ?run)) = [Text [lit ''Ingredientes''] 20 20]
     \<and> currentY (snd ?run) = 32.2"
    by (simp add: g s p h l blockY_def breaksPage_def)
  with run h g show ?thesis
    by simp
qed

lemma length_split_lines_replicate:
  "length (split_lines (concat (replicate n (w @ [10])) @ t)) = n + length (split_lines t)"
  if "10 \<notin> set w"
proof (induction n)
  case 0
  show ?case by simp
next
  case (Suc n)
  have "length (split_lines (w @ 10 # r)) = Suc (length (split_lines r))" for r
    using that by (induction w) (auto split: list.splits)
  with Suc show ?case by simp
qed

lemma length_long_text: "length (split_lines long_text) = 61"
  using length_split_lines_replicate [of "lit ''paso''" 60 "[]"]
  by (simp add: long_text_def lit_def)

text \<open>
  C2, as stated, fails for a block higher than the space between the margins: the text of
  61 lines at size 12 is moved to a new page, drawn at the top margin 20, and with its
  height of 292.8 ends below \<open>pageHeight - margin = 277\<close>.
\<close>

theorem C2_counterexample:
  "fst (addText example_env (geometry_of example_env) long_text 12 False (lit ''#666666'')
         (start\<lparr>currentY := 20\<rparr>)) = Inr () \<and>
   last (page (doc (snd (addText example_env (geometry_of example_env) long_text 12 False
         (lit ''#666666'') (start\<lparr>currentY := 20\<rparr>)))))
     = Text (split_lines long_text) 20 20 \<and>
   20 + real (length (split_lines long_text)) * (12 * 0.4)
     > pageHeight (geometry_of example_env) - margin (geometry_of example_env)"
proof -
  let ?run = "addText example_env (geometry_of example_env) long_text 12 False (lit ''#666666'')
         (start\<lparr>currentY := 20\<rparr>)"
  have q: "\<And>d c. \<not> throws example_env d c"
    by (simp add: example_env_def)
  have run: "?run = (Inr (), snd ?run)"
    by (rule returns_unit [OF returns_addText [OF q]])
  have l: "blockLines example_env (geometry_of example_env) new_pdf long_text 12 False
         (lit ''#666666'') = split_lines long_text"
    by (simp add: blockLines_def example_env_def)
  have ok: "fst ?run = Inr ()"
    using run by (metis fst_conv)
  have "page (doc (snd ?run)) = [Text (split_lines long_text) 20 20]"
    using addText_Inr(2) [OF run] l
    by (simp add: start_def geometry_of_def example_env_def blockY_def breaksPage_def
        blockHeight_def length_long_text)
  with ok show ?thesis
    by (simp add: geometry_of_def example_env_def length_long_text)
qed

subsection \<open>The metadata table\<close>

lemma drawInfoRow_fits:
  assumes "\<not> rowOverflows G y0 rh i" and "drawInfoRow E G y0 rh cw row i s = (Inr (), s')"
  shows "prev_pages (doc s') = prev_pages (doc s)"
    and "page (doc s') = page (doc s) @ rowItems G y0 rh cw row i"
  using assms
  by (auto simp: drawInfoRow_def rowOverflows_def rowItems_def Let_def prim_Inr_iff pdf_defs)

lemma drawInfoRow_overflows:
  assumes "rowOverflows G y0 rh i" and "drawInfoRow E G y0 rh cw row i s = (Inr (), s')"
  shows "prev_pages (doc s') = prev_pages (doc s) @ [page (doc s)]" and "page (doc s') = []"
  using assms
  by (auto simp: drawInfoRow_def rowOverflows_def Let_def prim_Inr_iff pdf_defs)

lemma rowOverflows_Suc: "0 \<le> rh \<Longrightarrow> rowOverflows G y0 rh i \<Longrightarrow> rowOverflows G y0 rh (Suc i)"
  by (simp add: rowOverflows_def algebra_simps)

lemma rows_all_overflow:
  assumes "0 \<le> rh"
  shows "rowOverflows G y0 rh i \<Longrightarrow>
     forEachFrom (drawInfoRow E G y0 rh cw) rows i s = (Inr (), s') \<Longrightarrow>
     prev_pages (doc s') @ [page (doc s')]
       = prev_pages (doc s) @ [page (doc s)] @ replicate (length rows) []"
proof (induction rows arbitrary: i s)
  case Nil
  then show ?case by (simp add: returnP_def)
next
  case (Cons row rows)
  from Cons.prems(2) obtain s1 where
    1: "drawInfoRow E G y0 rh cw row i s = (Inr (), s1)" and
    2: "forEachFrom (drawInfoRow E G y0 rh cw) rows (Suc i) s1 = (Inr (), s')"
    by (auto simp: bindP_Inr_iff)
  from Cons.IH [OF rowOverflows_Suc [OF assms Cons.prems(1)] 2]
    drawInfoRow_overflows [OF Cons.prems(1) 1]
  show ?case
    by (simp add: replicate_append_same)
qed

lemma upt_from: "[i..<i + Suc n] = i # [Suc i..<Suc i + n]"
  by (simp add: upt_conv_Cons del: upt_Suc)

lemma fittingRows_overflow: "rowOverflows G y0 rh i \<Longrightarrow> fittingRows G y0 rh i (Suc n) = 0"
  unfolding fittingRows_def upt_from by simp

lemma fittingRows_fit:
  "\<not> rowOverflows G y0 rh i \<Longrightarrow> fittingRows G y0 rh i (Suc n) = Suc (fittingRows G y0 rh (Suc i) n)"
  unfolding fittingRows_def upt_from by simp

lemma fittingRows_le: "fittingRows G y0 rh i n \<le> n"
  unfolding fittingRows_def
  by (metis diff_add_inverse length_takeWhile_le length_upt)

lemma rows_pages:
  assumes "0 \<le> rh"
  shows "forEachFrom (drawInfoRow E G y0 rh cw) rows i s = (Inr (), s') \<Longrightarrow>
     prev_pages (doc s') @ [page (doc s')]
       = prev_pages (doc s)
         @ [page (doc s) @ concat (map2 (rowItems G y0 rh cw)
              (take (fittingRows G y0 rh i (length rows)) rows)
              [i..<i + fittingRows G y0 rh i (length rows)])]
         @ replicate (length rows - fittingRows G y0 rh i (length rows)) []"
proof (induction rows arbitrary: i s)
  case Nil
  then show ?case by (simp add: returnP_def fittingRows_def)
next
  case (Cons row rows)
  show ?case
  proof (cases "rowOverflows G y0 rh i")
    case True
    from rows_all_overflow [OF assms True Cons.prems] show ?thesis
      by (simp add: fittingRows_overflow [OF True])
  next
    case False
    from Cons.prems obtain s1 where
      1: "drawInfoRow E G y0 rh cw row i s = (Inr (), s1)" and
      2: "forEachFrom (drawInfoRow E G y0 rh cw) rows (Suc i) s1 = (Inr (), s')"
      by (auto simp: bindP_Inr_iff)
    let ?k = "fittingRows G y0 rh (Suc i) (length rows)"
    have k: "?k \<le> length rows"
      by (rule fittingRows_le)
    have u: "[i..<i + Suc ?k] = i # [Suc i..<Suc i + ?k]"
      by (rule upt_from)
    have f: "fittingRows G y0 rh i (length (row # rows)) = Suc ?k"
      using fittingRows_fit [OF False] by simp
    from Cons.IH [OF 2] drawInfoRow_fits [OF False 1] k show ?thesis
      unfolding f u by simp
  qed
qed

lemma fittingRows_le_overflow:
  assumes "index < n" and "rowOverflows G y0 rh index"
  shows "fittingRows G y0 rh 0 n \<le> index"
proof (rule ccontr)
  let ?P = "\<lambda>j. \<not> rowOverflows G y0 rh j"
  assume "\<not> fittingRows G y0 rh 0 n \<le> index"
  then have lt: "index < length (takeWhile ?P [0..<n])"
    by (simp add: fittingRows_def)
  then have "takeWhile ?P [0..<n] ! index = [0..<n] ! index"
    by (rule takeWhile_nth)
  moreover have "takeWhile ?P [0..<n] ! index \<in> set (takeWhile ?P [0..<n])"
    using lt by simp
  ultimately have "?P index"
    using assms(1) by (metis add_0 nth_upt set_takeWhileD)
  with assms(2) show False by simp
qed

lemma infoTable_Inr:
  assumes "infoTable E G recipe s = (Inr (), s')"
  obtains s1 s2 where "prev_pages (doc s1) = prev_pages (doc s)" "page (doc s1) = page (doc s)"
    "forEachFrom (drawInfoRow E G (currentY s) 8 (contentWidth G * 0.4))
       (infoData (numberToString E) recipe) 0 s1 = (Inr (), s2)"
    "doc s' = doc s2"
proof -
  let ?s1 = "s\<lparr>doc := (doc s)\<lparr>fontSize := 10, fontStyle := lit ''normal'', textColor := RGB 0 0 0\<rparr>,
      issued := issued s @ [SetFontSize 10, SetFont (lit ''helvetica'') (lit ''normal''),
        SetTextColor (RGB 0 0 0)]\<rparr>"
  from assms obtain s2 where
    "forEachFrom (drawInfoRow E G (currentY s) 8 (contentWidth G * 0.4))
       (infoData (numberToString E) recipe) 0 ?s1 = (Inr (), s2)" "doc s' = doc s2"
    by (auto simp: infoTable_def Let_def prim_Inr_iff pdf_defs forEach_def)
  then show thesis
    by (intro that [of ?s1 s2]) simp_all
qed

text \<open>
  C3. When the table has been drawn and the test of line 96 held for the row at some
  index, then the rows drawn are the leading rows that passed the test, all before that
  index and all on the page that was current; every later row is skipped; one empty page
  has been started for each skipped row, and the current page is empty: no row of the
  table is drawn on a new page.
\<close>

theorem C3_table_overflow:
  assumes run: "infoTable E G recipe s = (Inr (), s')"
    and index: "index < length (infoData (numberToString E) recipe)"
    and overflow: "rowOverflows G (currentY s) 8 index"
  shows "fittingRows G (currentY s) 8 0 (length (infoData (numberToString E) recipe)) \<le> index \<and>
         prev_pages (doc s') =
           prev_pages (doc s)
           @ [page (doc s) @ concat (map2 (rowItems G (currentY s) 8 (contentWidth G * 0.4))
                (take (fittingRows G (currentY s) 8 0 (length (infoData (numberToString E) recipe)))
                   (infoData (numberToString E) recipe))
                [0..<fittingRows G (currentY s) 8 0 (length (infoData (numberToString E) recipe))])]
           @ replicate (length (infoData (numberToString E) recipe)
                - fittingRows G (currentY s) 8 0 (length (infoData (numberToString E) recipe)) - 1) [] \<and>
         page (doc s') = []"
proof -
  let ?rows = "infoData (numberToString E) recipe"
  let ?k = "fittingRows G (currentY s) 8 0 (length ?rows)"
  have k: "?k \<le> index"
    by (rule fittingRows_le_overflow [OF index overflow])
  from run obtain s1 s2 where
    p: "prev_pages (doc s1) = prev_pages (doc s)" "page (doc s1) = page (doc s)" and
    l: "forEachFrom (drawInfoRow E G (currentY s) 8 (contentWidth G * 0.4)) ?rows 0 s1 = (Inr (), s2)" and
    d: "doc s' = doc s2"
    by (rule infoTable_Inr)
  have "replicate (length ?rows - ?k) ([]::item list) = replicate (length ?rows - ?k - 1) [] @ [[]]"
    using k index by (cases "length ?rows - ?k") (simp_all add: replicate_append_same)
  with rows_pages [OF _ l, of] p d have
    "prev_pages (doc s') @ [page (doc s')] =
       (prev_pages (doc s)
           @ [page (doc s) @ concat (map2 (rowItems G (currentY s) 8 (contentWidth G * 0.4))
                (take ?k ?rows) [0..<?k])]
           @ replicate (length ?rows - ?k - 1) []) @ [[]]"
    by simp
  then show ?thesis
    using k by simp
qed


lemma tarta_rows: "length (infoData (numberToString example_env) tarta) = 4"
  by (simp add: infoData_def tarta_def)

theorem C3_table_overflow_witness:
  "infoTable example_env (geometry_of example_env) tarta (start\<lparr>currentY := 250\<rparr>)
     = (Inr (), snd (infoTable example_env (geometry_of example_env) tarta (start\<lparr>currentY := 250\<rparr>))) \<and>
   3 < length (infoData (numberToString example_env) tarta) \<and>
   rowOverflows (geometry_of example_env) 250 8 3 \<and>
   fittingRows (geometry_of example_env) 250 8 0 4 = 3 \<and>
   map length (prev_pages (doc (snd (infoTable example_env (geometry_of example_env) tarta
      (start\<lparr>currentY := 250\<rparr>))))) = [6] \<and>
   page (doc (snd (infoTable example_env (geometry_of example_env) tarta
      (start\<lparr>currentY := 250\<rparr>)))) = []"
proof -
  let ?G = "geometry_of example_env"
  let ?run = "infoTable example_env ?G tarta (start\<lparr>currentY := 250\<rparr>)"
  have q: "\<And>d c. \<not> throws example_env d c"
    by (simp add: example_env_def)
  have run: "?run = (Inr (), snd ?run)"
    by (rule returns_unit [OF returns_infoTable [OF q]])
  have i: "3 < length (infoData (numberToString example_env) tarta)"
    by (simp add: tarta_rows)
  have c: "currentY (start\<lparr>currentY := 250\<rparr>) = 250" "prev_pages (doc (start\<lparr>currentY := 250\<rparr>)) = []"
    "page (doc (start\<lparr>currentY := 250\<rparr>)) = []"
    by (simp_all add: start_def new_pdf_def)
  have o: "rowOverflows ?G 250 8 3"
    by (simp add: rowOverflows_def geometry_of_def example_env_def)
  have k: "fittingRows ?G 250 8 0 4 = 3"
    by (simp add: fittingRows_def rowOverflows_def geometry_of_def example_env_def upt_rec)
  have o': "rowOverflows ?G (currentY (start\<lparr>currentY := 250\<rparr>)) 8 3"
    using o by (simp add: c)
  have u: "[0..<3] = [0, 1, 2]"
    by (simp add: upt_rec)
  note C3_table_overflow [OF run i o', unfolded c tarta_rows k u]
  then have "map length (prev_pages (doc (snd ?run))) = [6] \<and> page (doc (snd ?run)) = []"
    by (simp add: infoData_def tarta_def rowItems_def)
  with run i o k show ?thesis
    by simp
qed

subsection \<open>Rows of the table and lines of the lists\<close>

text \<open>
  C4. For every recipe the first four rows of the table are, in this order, preparation
  time, cooking time, servings and difficulty, with their values; a recipe without a
  category (or with the empty string as its category) has exactly these four rows; a recipe
  with a category has exactly five, the fifth being the category row; and there is a fifth
  row only when a category is present.
\<close>

theorem C4_infoData:
  "map fst (take 4 (infoData str r)) =
     [lit ''Tiempo de Preparaci'' @ [243] @ lit ''n:'', lit ''Tiempo de Cocci'' @ [243] @ lit ''n:'',
      lit ''Porciones:'', lit ''Dificultad:''] \<and>
   map snd (take 4 (infoData str r)) =
     [str (num_or (preparation_time r) 0) @ lit '' minutos'',
      str (num_or (cooking_time r) 0) @ lit '' minutos'',
      str (num_or (servings r) 1),
      getDifficultyText (difficulty r)] \<and>
   (category r = None \<longrightarrow> length (infoData str r) = 4) \<and>
   (category r = Some [] \<longrightarrow> length (infoData str r) = 4) \<and>
   (\<forall>c. category r = Some c \<and> c \<noteq> [] \<longrightarrow>
      length (infoData str r) = 5 \<and>
      infoData str r ! 4 = (lit ''Categor'' @ [237] @ lit ''a:'', c)) \<and>
   (length (infoData str r) = 5 \<longrightarrow> category r \<noteq> None)"
  by (auto simp: infoData_def split: option.splits)


theorem C4_infoData_witness:
  "category tarta = None \<and> length (infoData js_decimal tarta) = 4 \<and>
   category (tarta\<lparr>category := Some []\<rparr>) = Some [] \<and>
   length (infoData js_decimal (tarta\<lparr>category := Some []\<rparr>)) = 4 \<and>
   category (tarta\<lparr>category := Some (lit ''Postres'')\<rparr>) = Some (lit ''Postres'') \<and>
   lit ''Postres'' \<noteq> [] \<and>
   length (infoData js_decimal (tarta\<lparr>category := Some (lit ''Postres'')\<rparr>)) = 5 \<and>
   infoData js_decimal (tarta\<lparr>category := Some (lit ''Postres'')\<rparr>) ! 4
     = (lit ''Categor'' @ [237] @ lit ''a:'', lit ''Postres'')"
  using C4_infoData [of js_decimal tarta]
    C4_infoData [of js_decimal "tarta\<lparr>category := Some []\<rparr>"]
    C4_infoData [of js_decimal "tarta\<lparr>category := Some (lit ''Postres'')\<rparr>"]
  by (simp add: tarta_def lit_def)







subsection \<open>The submit handler\<close>

lemma db_calls_run:
  "seqP (map (db S) cs) s =
     (if all_accepted S (calls s) cs then Inr ()
      else Inl (Rejected (last (issued_calls S (calls s) cs))),
      s\<lparr>calls := calls s @ issued_calls S (calls s) cs\<rparr>)"
proof (induction cs arbitrary: s)
  case Nil
  show ?case by (simp add: returnP_def)
next
  case (Cons c cs)
  show ?case
  proof (cases "rejects S (calls s) c")
    case True
    then show ?thesis by (simp add: bindP_def db_def)
  next
    case False
    then show ?thesis
      using Cons [of "s\<lparr>calls := calls s @ [c]\<rparr>"]
      by (cases cs) (simp_all add: bindP_def db_def)
  qed
qed

lemma loop_as_calls:
  "forEachFrom (\<lambda>i index. whenP (P i) (db S (mk i))) rows k = seqP (map (db S) (map mk (filter P rows)))"
  by (induction rows arbitrary: k) (simp_all add: whenP_def bindP_returnP)

lemma createIngredients_calls:
  "createIngredients S rid rows = seqP (map (db S) (ingredientCalls rid rows))"
  by (simp add: createIngredients_def ingredientCalls_def forEach_def loop_as_calls)

lemma createInstructions_calls:
  "createInstructions S rid rows = seqP (map (db S) (instructionCalls rid rows))"
  by (simp add: createInstructions_def instructionCalls_def forEach_def loop_as_calls)

lemma issued_calls_prefix: "prefix (issued_calls S before cs) cs"
  by (induction cs arbitrary: before) simp_all

lemma issued_calls_all: "all_accepted S before cs \<Longrightarrow> issued_calls S before cs = cs"
  by (induction cs arbitrary: before) simp_all

lemma issued_calls_rejected:
  "\<not> all_accepted S before cs \<Longrightarrow>
   rejects S (before @ butlast (issued_calls S before cs)) (last (issued_calls S before cs))"
proof (induction cs arbitrary: before)
  case Nil
  then show ?case by simp
next
  case (Cons c cs)
  show ?case
  proof (cases "rejects S before c")
    case True
    then show ?thesis by simp
  next
    case False
    with Cons.prems have n: "\<not> all_accepted S (before @ [c]) cs" by simp
    then have "cs \<noteq> []" by auto
    then have "issued_calls S (before @ [c]) cs \<noteq> []" by (cases cs) simp_all
    with Cons.IH [OF n] False show ?thesis by simp
  qed
qed


lemma bindP_unit: "bindP m returnP = m" for m :: "('s, 'e, unit) prog"
  by (auto simp: bindP_def returnP_def fun_eq_iff split: prod.splits sum.splits)

lemma seqP_two: "seqP [seqP ms, seqP ns] = seqP (ms @ ns)"
  by (simp add: seqP_append bindP_unit)

lemma edit_main:
  "i \<noteq> [] \<Longrightarrow>
   bindP (saveRecipe S True (Some i) data)
     (\<lambda>rid. seqP [createIngredients S rid (data_ingredients data),
                  createInstructions S rid (data_instructions data)])
   = seqP (map (db S) (editCalls S i data))"
  by (simp add: saveRecipe_def updateRecipe_def createIngredients_calls createInstructions_calls
      seqP_two editCalls_def bindP_assoc bindP_returnP bindP_unit seqP_append)

lemma new_main:
  "\<not> const_assignment_throws S \<Longrightarrow>
   bindP (createRecipe S data)
     (\<lambda>rid. seqP [createIngredients S rid (data_ingredients data),
                  createInstructions S rid (data_instructions data)])
   = seqP (map (db S) (newCalls S data))"
  by (simp add: createRecipe_def createIngredients_calls createInstructions_calls
      seqP_two newCalls_def bindP_assoc bindP_returnP bindP_unit seqP_append)

lemma new_main_throws:
  "const_assignment_throws S \<Longrightarrow>
   bindP (createRecipe S data) f
   = bindP (seqP (map (db S) (newCalls S data))) (\<lambda>_. throwP TypeError)"
  by (simp add: createRecipe_def newCalls_def bindP_assoc bindP_returnP bindP_def throwP_def
      returnP_def fun_eq_iff split: prod.splits sum.splits)


lemmas handler_defs = tryFinally_def tryCatch_def bindP_def returnP_def throwP_def modifyP_def
  setLoading_def show_toast_def navigate_def success_toast_def error_toast_def

lemma onSubmit_edit:
  assumes "i \<noteq> []"
  shows "fst (onSubmit S (Some i) data s) = Inr ()"
    and "calls (snd (onSubmit S (Some i) data s))
           = calls s @ issued_calls S (calls s) (editCalls S i data)"
    and "toasts (snd (onSubmit S (Some i) data s))
           = toasts s @ [if all_accepted S (calls s) (editCalls S i data)
                         then success_toast True else error_toast True]"
    and "navigated (snd (onSubmit S (Some i) data s))
           = (if all_accepted S (calls s) (editCalls S i data) then navigated s @ [lit ''/'']
              else navigated s)"
    and "loading (snd (onSubmit S (Some i) data s)) = False"
proof -
  have t: "truthy_str (Some i) = True"
    using assms by (simp add: truthy_str_def)
  note m = edit_main [OF assms, of S data]
  have r: "seqP (map (db S) (editCalls S i data)) (s\<lparr>loading := True\<rparr>) =
     (if all_accepted S (calls s) (editCalls S i data) then Inr ()
      else Inl (Rejected (last (issued_calls S (calls s) (editCalls S i data)))),
      s\<lparr>loading := True, calls := calls s @ issued_calls S (calls s) (editCalls S i data)\<rparr>)"
    using db_calls_run [of S "editCalls S i data" "s\<lparr>loading := True\<rparr>"] by simp
  show "fst (onSubmit S (Some i) data s) = Inr ()"
    and "calls (snd (onSubmit S (Some i) data s))
           = calls s @ issued_calls S (calls s) (editCalls S i data)"
    and "toasts (snd (onSubmit S (Some i) data s))
           = toasts s @ [if all_accepted S (calls s) (editCalls S i data)
                         then success_toast True else error_toast True]"
    and "navigated (snd (onSubmit S (Some i) data s))
           = (if all_accepted S (calls s) (editCalls S i data) then navigated s @ [lit ''/'']
              else navigated s)"
    and "loading (snd (onSubmit S (Some i) data s)) = False"
    unfolding onSubmit_def Let_def t m
    by (simp_all add: handler_defs r)
qed

lemma onSubmit_new:
  assumes "id' = None \<or> id' = Some []"
  shows "calls (snd (onSubmit S id' data s)) = calls s @ issued_calls S (calls s) (newCalls S data)"
proof -
  have t: "truthy_str id' = False"
    using assms by (auto simp: truthy_str_def)
  have sv: "saveRecipe S False id' data = createRecipe S data"
    using assms by (auto simp: saveRecipe_def)
  let ?s = "s\<lparr>loading := True\<rparr>"
  have r: "seqP (map (db S) (newCalls S data)) ?s =
     (if all_accepted S (calls s) (newCalls S data) then Inr ()
      else Inl (Rejected (last (issued_calls S (calls s) (newCalls S data)))),
      s\<lparr>loading := True, calls := calls s @ issued_calls S (calls s) (newCalls S data)\<rparr>)"
    using db_calls_run [of S "newCalls S data" ?s] by simp
  show ?thesis
  proof (cases "const_assignment_throws S")
    case True
    show ?thesis
      unfolding onSubmit_def Let_def t sv new_main_throws [OF True]
      by (simp add: handler_defs r)
  next
    case False
    show ?thesis
      unfolding onSubmit_def Let_def t sv new_main [OF False]
      by (simp add: handler_defs r)
  qed
qed

lemma onSubmit_calls:
  "calls (snd (onSubmit S id' data s)) = calls s @ issued_calls S (calls s) (plannedCalls S id' data)"
proof (cases "id' = None \<or> id' = Some []")
  case True
  then show ?thesis
    using onSubmit_new [OF True] by (auto simp: plannedCalls_def)
next
  case False
  then obtain i where "id' = Some i" "i \<noteq> []" by auto
  then show ?thesis
    using onSubmit_edit(2) [of i S data s] by (simp add: plannedCalls_def)
qed


lemma new_calls_onSubmit:
  "new_calls s (snd (onSubmit S id' data s)) = issued_calls S (calls s) (plannedCalls S id' data)"
  by (simp add: new_calls_def onSubmit_calls)

lemma filter_ingredientCalls [simp]:
  "filter is_Ingredients_create (ingredientCalls rid rows) = ingredientCalls rid rows"
  "filter is_Instructions_create (ingredientCalls rid rows) = []"
  by (simp_all add: ingredientCalls_def filter_map comp_def)

lemma filter_instructionCalls [simp]:
  "filter is_Instructions_create (instructionCalls rid rows) = instructionCalls rid rows"
  "filter is_Ingredients_create (instructionCalls rid rows) = []"
  by (simp_all add: instructionCalls_def filter_map comp_def)

lemma planned_ingredients:
  "prefix (filter is_Ingredients_create (plannedCalls S id' data))
     (ingredientCalls (target_id S id') (data_ingredients data))"
  by (auto simp: plannedCalls_def newCalls_def editCalls_def target_id_def split: option.splits)

lemma planned_instructions:
  "prefix (filter is_Instructions_create (plannedCalls S id' data))
     (instructionCalls (target_id S id') (data_instructions data))"
  by (auto simp: plannedCalls_def newCalls_def editCalls_def target_id_def split: option.splits)

lemma planned_complete:
  assumes "truthy_str id' \<or> \<not> const_assignment_throws S"
  shows "filter is_Ingredients_create (plannedCalls S id' data)
           = ingredientCalls (target_id S id') (data_ingredients data)"
    and "filter is_Instructions_create (plannedCalls S id' data)
           = instructionCalls (target_id S id') (data_instructions data)"
  using assms
  by (auto simp: plannedCalls_def newCalls_def editCalls_def target_id_def truthy_str_def
      split: option.splits)

lemma planned_nonblank:
  "Ingredients_create rid r \<in> set (plannedCalls S id' data) \<Longrightarrow> trim (ingredient r) \<noteq> []"
  "Instructions_create rid' r' \<in> set (plannedCalls S id' data) \<Longrightarrow> trim (instruction r') \<noteq> []"
  by (auto simp: plannedCalls_def newCalls_def editCalls_def ingredientCalls_def
      instructionCalls_def split: option.splits if_splits)

text \<open>
  C6. Whatever the store does, the create calls the handler issues for ingredients are, in
  order, create calls for the rows whose ingredient text is not empty after trimming, and
  likewise for instructions: every create call issued carries a text that is not empty
  after trimming, so a row with empty or blank text is never persisted. When the store
  accepts every call (and the handler reaches the loops), there is one create call for each
  row with text.
\<close>

theorem C6_nonblank_rows:
  "prefix (filter is_Ingredients_create (new_calls s (snd (onSubmit S id' data s))))
     (ingredientCalls (target_id S id') (data_ingredients data)) \<and>
   prefix (filter is_Instructions_create (new_calls s (snd (onSubmit S id' data s))))
     (instructionCalls (target_id S id') (data_instructions data)) \<and>
   (\<forall>rid r. Ingredients_create rid r \<in> set (new_calls s (snd (onSubmit S id' data s)))
      \<longrightarrow> trim (ingredient r) \<noteq> []) \<and>
   (\<forall>rid r. Instructions_create rid r \<in> set (new_calls s (snd (onSubmit S id' data s)))
      \<longrightarrow> trim (instruction r) \<noteq> []) \<and>
   (all_accepted S (calls s) (plannedCalls S id' data) \<and>
    (truthy_str id' \<or> \<not> const_assignment_throws S) \<longrightarrow>
      filter is_Ingredients_create (new_calls s (snd (onSubmit S id' data s)))
        = ingredientCalls (target_id S id') (data_ingredients data) \<and>
      filter is_Instructions_create (new_calls s (snd (onSubmit S id' data s)))
        = instructionCalls (target_id S id') (data_instructions data))"
proof -
  let ?new = "new_calls s (snd (onSubmit S id' data s))"
  let ?plan = "plannedCalls S id' data"
  have n: "?new = issued_calls S (calls s) ?plan"
    by (rule new_calls_onSubmit)
  have p: "prefix ?new ?plan"
    unfolding n by (rule issued_calls_prefix)
  have 1: "prefix (filter is_Ingredients_create ?new)
     (ingredientCalls (target_id S id') (data_ingredients data))"
    using filter_mono_prefix [OF p] planned_ingredients by (rule prefix_order.trans)
  have 2: "prefix (filter is_Instructions_create ?new)
     (instructionCalls (target_id S id') (data_instructions data))"
    using filter_mono_prefix [OF p] planned_instructions by (rule prefix_order.trans)
  have 3: "trim (ingredient r) \<noteq> []" if "Ingredients_create rid r \<in> set ?new" for rid r
    using that set_mono_prefix [OF p] planned_nonblank(1) by blast
  have 4: "trim (instruction r) \<noteq> []" if "Instructions_create rid r \<in> set ?new" for rid r
    using that set_mono_prefix [OF p] planned_nonblank(2) by blast
  have 5: "filter is_Ingredients_create ?new
        = ingredientCalls (target_id S id') (data_ingredients data) \<and>
      filter is_Instructions_create ?new
        = instructionCalls (target_id S id') (data_instructions data)"
    if "all_accepted S (calls s) ?plan" "truthy_str id' \<or> \<not> const_assignment_throws S"
    using that planned_complete [of id' S data] by (simp add: n issued_calls_all)
  from 1 2 3 4 5 show ?thesis
    by blast
qed

text \<open>
  C9. Saving an existing recipe issues, in this order, the update of the recipe, the
  deletion of its ingredients, the deletion of its instructions, a create call for each
  ingredient row with text and a create call for each instruction row with text. When the
  store rejects one of them, that call is the last one issued: the calls made are the
  sequence up to it and nothing else, no call undoes or repeats an earlier one, and the
  handler ends normally with the error notification.
\<close>

theorem C9_edit_sequence:
  assumes "i \<noteq> []"
  shows "editCalls S i data =
           [Recipes_update i (RecipeFields.truncate data) (toISOString S),
            Ingredients_delete i, Instructions_delete i]
           @ ingredientCalls i (data_ingredients data)
           @ instructionCalls i (data_instructions data) \<and>
         fst (onSubmit S (Some i) data s) = Inr () \<and>
         new_calls s (snd (onSubmit S (Some i) data s))
           = issued_calls S (calls s) (editCalls S i data) \<and>
         prefix (new_calls s (snd (onSubmit S (Some i) data s))) (editCalls S i data) \<and>
         (all_accepted S (calls s) (editCalls S i data) \<longrightarrow>
            new_calls s (snd (onSubmit S (Some i) data s)) = editCalls S i data \<and>
            toasts (snd (onSubmit S (Some i) data s)) = toasts s @ [success_toast True]) \<and>
         (\<not> all_accepted S (calls s) (editCalls S i data) \<longrightarrow>
            rejects S (calls s @ butlast (new_calls s (snd (onSubmit S (Some i) data s))))
              (last (new_calls s (snd (onSubmit S (Some i) data s)))) \<and>
            toasts (snd (onSubmit S (Some i) data s)) = toasts s @ [error_toast True])"
proof -
  let ?new = "new_calls s (snd (onSubmit S (Some i) data s))"
  have n: "?new = issued_calls S (calls s) (editCalls S i data)"
    using onSubmit_edit(2) [OF assms] by (simp add: new_calls_def)
  show ?thesis
    unfolding n
    using onSubmit_edit(1,3) [OF assms, of S data s]
      issued_calls_prefix [of S "calls s" "editCalls S i data"]
      issued_calls_all [of S "calls s" "editCalls S i data"]
      issued_calls_rejected [of S "calls s" "editCalls S i data"]
    by (simp add: editCalls_def)
qed


lemma example_rows:
  "ingredientCalls rid (data_ingredients example_form) =
     [Ingredients_create rid
        \<lparr>ingredient = lit ''manzana'', quantity = Some 3, unit_id = None, notes' = Some []\<rparr>]"
  "instructionCalls rid (data_instructions example_form) =
     [Instructions_create rid \<lparr>step_number = 1, instruction = lit ''Hornear 40 minutos''\<rparr>]"
  by (simp_all add: ingredientCalls_def instructionCalls_def example_form_def trim_def
      isWhiteSpace_def lit_def)

lemma example_edit:
  "editCalls S (lit ''r1'') example_form =
     [Recipes_update (lit ''r1'') (RecipeFields.truncate example_form) (toISOString S),
      Ingredients_delete (lit ''r1''), Instructions_delete (lit ''r1''),
      Ingredients_create (lit ''r1'')
        \<lparr>ingredient = lit ''manzana'', quantity = Some 3, unit_id = None, notes' = Some []\<rparr>,
      Instructions_create (lit ''r1'') \<lparr>step_number = 1, instruction = lit ''Hornear 40 minutos''\<rparr>]"
  by (simp add: editCalls_def example_rows)

lemma example_accepted:
  "all_accepted example_store before cs"
  by (induction cs arbitrary: before) (simp_all add: example_store_def)

lemma example_rejected:
  "\<not> all_accepted rejecting_store [] (editCalls rejecting_store (lit ''r1'') example_form)"
  "issued_calls rejecting_store [] (editCalls rejecting_store (lit ''r1'') example_form) =
     [Recipes_update (lit ''r1'') (RecipeFields.truncate example_form) (toISOString rejecting_store),
      Ingredients_delete (lit ''r1''), Instructions_delete (lit ''r1'')]"
  by (simp_all add: example_edit) (simp_all add: rejecting_store_def)

theorem C9_edit_sequence_witness:
  "lit ''r1'' \<noteq> [] \<and>
   all_accepted example_store (calls form_start) (editCalls example_store (lit ''r1'') example_form) \<and>
   new_calls form_start (snd (onSubmit example_store (Some (lit ''r1'')) example_form form_start)) =
     [Recipes_update (lit ''r1'') (RecipeFields.truncate example_form) (toISOString example_store),
      Ingredients_delete (lit ''r1''), Instructions_delete (lit ''r1''),
      Ingredients_create (lit ''r1'')
        \<lparr>ingredient = lit ''manzana'', quantity = Some 3, unit_id = None, notes' = Some []\<rparr>,
      Instructions_create (lit ''r1'') \<lparr>step_number = 1, instruction = lit ''Hornear 40 minutos''\<rparr>] \<and>
   toasts (snd (onSubmit example_store (Some (lit ''r1'')) example_form form_start))
     = [success_toast True] \<and>
   \<not> all_accepted rejecting_store (calls form_start)
       (editCalls rejecting_store (lit ''r1'') example_form) \<and>
   new_calls form_start (snd (onSubmit rejecting_store (Some (lit ''r1'')) example_form form_start)) =
     [Recipes_update (lit ''r1'') (RecipeFields.truncate example_form) (toISOString rejecting_store),
      Ingredients_delete (lit ''r1''), Instructions_delete (lit ''r1'')] \<and>
   toasts (snd (onSubmit rejecting_store (Some (lit ''r1'')) example_form form_start))
     = [error_toast True]"
proof -
  have i: "lit ''r1'' \<noteq> []"
    by (simp add: lit_def)
  have c: "calls form_start = []" "toasts form_start = []"
    by (simp_all add: form_start_def)
  have a: "all_accepted example_store (calls form_start)
      (editCalls example_store (lit ''r1'') example_form)"
    by (rule example_accepted)
  have b: "\<not> all_accepted rejecting_store (calls form_start)
      (editCalls rejecting_store (lit ''r1'') example_form)"
    using example_rejected(1) by (simp add: c)
  from C9_edit_sequence [OF i, of example_store example_form form_start] a
  have 1: "new_calls form_start (snd (onSubmit example_store (Some (lit ''r1'')) example_form form_start))
      = editCalls example_store (lit ''r1'') example_form"
    and 2: "toasts (snd (onSubmit example_store (Some (lit ''r1'')) example_form form_start))
      = toasts form_start @ [success_toast True]"
    by blast+
  from C9_edit_sequence [OF i, of rejecting_store example_form form_start] b
  have 3: "new_calls form_start (snd (onSubmit rejecting_store (Some (lit ''r1'')) example_form form_start))
      = issued_calls rejecting_store (calls form_start)
          (editCalls rejecting_store (lit ''r1'') example_form)"
    and 4: "toasts (snd (onSubmit rejecting_store (Some (lit ''r1'')) example_form form_start))
      = toasts form_start @ [error_toast True]"
    by blast+
  show ?thesis
    unfolding 1 2 3 4 c example_rejected(2)
    using i a b by (simp add: c example_edit)
qed

theorem C6_nonblank_rows_witness:
  "all_accepted example_store (calls form_start)
     (plannedCalls example_store (Some (lit ''r1'')) example_form) \<and>
   truthy_str (Some (lit ''r1'')) \<and>
   map ingredient (data_ingredients example_form) = [lit ''manzana'', lit ''   '', []] \<and>
   map instruction (data_instructions example_form) = [lit ''Hornear 40 minutos'', lit '' ''] \<and>
   filter is_Ingredients_create
     (new_calls form_start (snd (onSubmit example_store (Some (lit ''r1'')) example_form form_start)))
     = [Ingredients_create (lit ''r1'')
          \<lparr>ingredient = lit ''manzana'', quantity = Some 3, unit_id = None, notes' = Some []\<rparr>] \<and>
   filter is_Instructions_create
     (new_calls form_start (snd (onSubmit example_store (Some (lit ''r1'')) example_form form_start)))
     = [Instructions_create (lit ''r1'')
          \<lparr>step_number = 1, instruction = lit ''Hornear 40 minutos''\<rparr>] \<and>
   Ingredients_create (lit ''r1'')
       \<lparr>ingredient = lit ''manzana'', quantity = Some 3, unit_id = None, notes' = Some []\<rparr>
     \<in> set (new_calls form_start
          (snd (onSubmit example_store (Some (lit ''r1'')) example_form form_start))) \<and>
   trim (lit ''manzana'') \<noteq> [] \<and>
   Instructions_create (lit ''r1'') \<lparr>step_number = 1, instruction = lit ''Hornear 40 minutos''\<rparr>
     \<in> set (new_calls form_start
          (snd (onSubmit example_store (Some (lit ''r1'')) example_form form_start))) \<and>
   trim (lit ''Hornear 40 minutos'') \<noteq> []"
proof -
  let ?new = "new_calls form_start
    (snd (onSubmit example_store (Some (lit ''r1'')) example_form form_start))"
  have t: "truthy_str (Some (lit ''r1''))" "target_id example_store (Some (lit ''r1'')) = lit ''r1''"
    by (simp_all add: truthy_str_def target_id_def lit_def)
  have r: "map ingredient (data_ingredients example_form) = [lit ''manzana'', lit ''   '', []]"
    "map instruction (data_instructions example_form) = [lit ''Hornear 40 minutos'', lit '' '']"
    by (simp_all add: example_form_def)
  have n: "?new = editCalls example_store (lit ''r1'') example_form"
    by (simp add: new_calls_onSubmit issued_calls_all [OF example_accepted] plannedCalls_def lit_def)
  from C6_nonblank_rows [of form_start example_store "Some (lit ''r1'')" example_form]
    example_accepted t
  have f: "filter is_Ingredients_create ?new = ingredientCalls (lit ''r1'') (data_ingredients example_form)"
    "filter is_Instructions_create ?new = instructionCalls (lit ''r1'') (data_instructions example_form)"
    "\<forall>rid r. Ingredients_create rid r \<in> set ?new \<longrightarrow> trim (ingredient r) \<noteq> []"
    "\<forall>rid r. Instructions_create rid r \<in> set ?new \<longrightarrow> trim (instruction r) \<noteq> []"
    by simp_all
  have m: "Ingredients_create (lit ''r1'')
       \<lparr>ingredient = lit ''manzana'', quantity = Some 3, unit_id = None, notes' = Some []\<rparr> \<in> set ?new"
    "Instructions_create (lit ''r1'') \<lparr>step_number = 1, instruction = lit ''Hornear 40 minutos''\<rparr>
       \<in> set ?new"
    by (simp_all add: n example_edit)
  from f(3) m(1) have 1: "trim (lit ''manzana'') \<noteq> []"
    by fastforce
  from f(4) m(2) have 2: "trim (lit ''Hornear 40 minutos'') \<noteq> []"
    by fastforce
  from f(1,2) m 1 2 r t example_accepted show ?thesis
    by (simp add: example_rows)
qed

end
